theory Spec2Isabelle
  imports Main "HOL-Library.Sublist"
begin

section \<open>Data model\<close>

text \<open>
  The interfaces of \<^verbatim>\<open>src/interfaces\<close>. A JSON field that the code tests with
  \<^verbatim>\<open>!x\<close> and \<^verbatim>\<open>Array.isArray(x)\<close> is a \<open>field\<close>: \<open>Absent\<close> stands for every
  falsy value (undefined, null, 0, false, the empty string), \<open>NotArray\<close> for a truthy
  value that is neither an array nor iterable (an object, a non-zero number, true), and
  \<open>Arr xs\<close> for an array. Numbers are unbounded integers; \<open>None\<close> in a numeric
  position is an absent value (or NaN where the comment says so). Strings are lists of
  8-bit characters.
\<close>

datatype 'a field = Absent | NotArray | Arr "'a list"

record PaperlessNote =
  note_id :: int
  note_text :: "string option"

record PaperlessDocument =
  doc_content :: "string option"
  doc_id :: "int option"
  doc_notes :: "PaperlessNote field"

record PaperlessSearchResult =
  page_next :: "string option"
  page_results :: "PaperlessDocument field"

text \<open>\<open>CONTEXT_LENGTH\<close> is the result of \<^verbatim>\<open>parseInt\<close>: \<open>None\<close> is NaN.\<close>

record SummarizerConfiguration =
  CONTEXT_LENGTH :: "int option"
  MODEL_NAME :: string
  SUMMARY_MARKER :: string
  SUMMARY_PROMPT :: string

record EnvConfig =
  apiKey :: string
  paperlessUrl :: string
  saveTxtPath :: string
  saveTxtSummary :: int

section \<open>Errors, the network and the trace of effects\<close>

text \<open>
  Every \<^verbatim>\<open>throw\<close> of the source and every rejection of a promise is a value of
  \<open>error\<close>. \<open>AbortError\<close> is the rejection of a \<^verbatim>\<open>fetch\<close> whose
  \<^verbatim>\<open>AbortController\<close> fired; \<open>TypeError\<close> and \<open>SyntaxError\<close> are raised by the
  runtime (calling a method that does not exist, iterating a non-iterable, parsing a
  body that is not JSON).
\<close>

datatype error = Error string | TypeError | SyntaxError | AbortError

text \<open>
  A \<^verbatim>\<open>fetch\<close> either rejects or resolves to a response with its \<^verbatim>\<open>ok\<close> flag,
  its status text and its body; \<open>body = None\<close> is a body on which
  \<^verbatim>\<open>response.json()\<close> throws.
\<close>

record 'a response =
  ok :: bool
  statusText :: string
  body :: "'a option"

datatype 'a fetched = Rejects error | Resolves "'a response"

text \<open>
  The requests the program issues. \<open>HttpGet url\<close> is \<^verbatim>\<open>fetch(url, {headers})\<close>.
  \<open>HttpPost base d text\<close> is the POST of \<^verbatim>\<open>{note: text}\<close> to
  \<^verbatim>\<open>${base}/documents/${d}/notes/\<close> and \<open>HttpDelete base d n\<close> the DELETE of the
  same URL with the query \<^verbatim>\<open>id=n\<close>, where \<open>d\<close> is the text \<^verbatim>\<open>documentId.toString()\<close>.
\<close>

datatype http = HttpGet string | HttpPost string string string | HttpDelete string string int

text \<open>The console messages, one constructor per template string of the source.\<close>

datatype message =
    ScanPageProcessed nat string
  | ProcessingDocument int
  | PostingSummary int
  | ErrorProcessingDocument int error
  | FailedToParseJSON
  | InvalidResultsFormat
  | SkippingInvalidDocument PaperlessDocument
  | DeletingNote int int
  | ErrorDeletingNote int error
  | InvalidNextPageUrl string
  | CleanupPageProcessed "string option"
  | RequestTimeout
  | CheckingForNotes "int option"
  | FailedToFetchNotes "int option" error
  | FoundNotes nat "int option"
  | Uncaught error

text \<open>
  What the program does to the world, in order: requests, console output, writes to
  standard output, calls of the generation model (model name and prompt) and files
  written (document id, text, directory).
\<close>

datatype event =
    Request http
  | ConsoleLog message
  | ConsoleError message
  | StdoutWrite string
  | Generate string string
  | SaveFile int string string

text \<open>
  A run ends by returning, by throwing, or it is \<open>Pending\<close>: it has issued a request
  that the given finite script of responses does not answer.
\<close>

datatype 'a outcome = Returned 'a | Threw error | Pending

definition emit :: "event list \<Rightarrow> 'a \<times> event list \<Rightarrow> 'a \<times> event list" where
  "emit es r = (fst r, es @ snd r)"

definition requests :: "event list \<Rightarrow> http list" where
  "requests tr = concat (map (\<lambda>e. case e of Request r \<Rightarrow> [r] | _ \<Rightarrow> []) tr)"

text \<open>A response that is ok, with the given body.\<close>

definition served :: "'a \<Rightarrow> 'a fetched" where
  "served b = Resolves \<lparr>ok = True, statusText = ''OK'', body = Some b\<rparr>"

text \<open>A server on which every DELETE succeeds.\<close>

definition deleteSucceeds :: "http \<Rightarrow> unit fetched" where
  "deleteSucceeds q = served ()"

section \<open>Strings: the built-in operations the code relies on\<close>

text \<open>\<^verbatim>\<open>s.includes(m)\<close>: \<open>m\<close> occurs in \<open>s\<close> as a contiguous substring.\<close>

definition string_includes :: "string \<Rightarrow> string \<Rightarrow> bool" where
  "string_includes s m = sublist m s"

text \<open>\<^verbatim>\<open>s.startsWith(p)\<close>.\<close>

definition startsWith :: "string \<Rightarrow> string \<Rightarrow> bool" where
  "startsWith s p = prefix p s"

text \<open>\<^verbatim>\<open>!s\<close> for an optional string: absent or empty.\<close>

definition falsy :: "string option \<Rightarrow> bool" where
  "falsy s = (case s of None \<Rightarrow> True | Some t \<Rightarrow> t = [])"

text \<open>\<^verbatim>\<open>a ?? b\<close> on an optional string.\<close>

definition nullish :: "string option \<Rightarrow> string \<Rightarrow> string" where
  "nullish a b = (case a of None \<Rightarrow> b | Some v \<Rightarrow> v)"

section \<open>Numbers and text\<close>

text \<open>
  \<^verbatim>\<open>parseInt(s, radix)\<close> on integers of any size (the code's numbers are doubles, which
  agree with the integers up to \<open>2^53\<close>): leading white space is skipped, one sign is
  read, then the longest run of digits of the radix; no digit at all gives NaN
  (\<open>None\<close>). Whatever follows the digits is ignored. Without a radix, and with radix
  16, a prefix \<^verbatim>\<open>0x\<close> selects radix 16. The code calls it with radix 10 and with none.
\<close>

definition isWhiteSpace :: "char \<Rightarrow> bool" where
  "isWhiteSpace c =
     (c \<in> set [CHR 0x09, CHR 0x0A, CHR 0x0B, CHR 0x0C, CHR 0x0D, CHR 0x20, CHR 0xA0])"

definition digitValue :: "char \<Rightarrow> nat option" where
  "digitValue c =
     (let k = (of_char c :: nat) in
      if 48 \<le> k \<and> k \<le> 57 then Some (k - 48)
      else if 97 \<le> k \<and> k \<le> 122 then Some (k - 87)
      else if 65 \<le> k \<and> k \<le> 90 then Some (k - 55)
      else None)"

definition isRadixDigit :: "nat \<Rightarrow> char \<Rightarrow> bool" where
  "isRadixDigit R c = (case digitValue c of None \<Rightarrow> False | Some v \<Rightarrow> v < R)"

definition digitsValue :: "nat \<Rightarrow> string \<Rightarrow> nat" where
  "digitsValue R ds = foldl (\<lambda>acc c. acc * R + (case digitValue c of None \<Rightarrow> 0 | Some v \<Rightarrow> v)) 0 ds"

definition parseInt :: "string \<Rightarrow> nat option \<Rightarrow> int option" where
  "parseInt s radix =
     (let s1 = dropWhile isWhiteSpace s;
          negative = (case s1 of [] \<Rightarrow> False | c # t \<Rightarrow> c = CHR ''-'');
          s2 = (case s1 of [] \<Rightarrow> [] | c # t \<Rightarrow> if c = CHR ''+'' \<or> c = CHR ''-'' then t else s1);
          hex = ((radix = None \<or> radix = Some 16) \<and> (prefix ''0x'' s2 \<or> prefix ''0X'' s2));
          R = (if hex then 16 else case radix of None \<Rightarrow> 10 | Some k \<Rightarrow> k);
          s3 = (if hex then drop 2 s2 else s2);
          ds = takeWhile (isRadixDigit R) s3
      in if ds = [] then None
         else Some ((if negative then - 1 else 1) * int (digitsValue R ds)))"

text \<open>The decimal text of a number, as a template string and \<^verbatim>\<open>toString()\<close> give it.\<close>

definition digitChar :: "nat \<Rightarrow> char" where
  "digitChar k =
     (if k = 0 then CHR ''0'' else if k = 1 then CHR ''1'' else if k = 2 then CHR ''2''
      else if k = 3 then CHR ''3'' else if k = 4 then CHR ''4'' else if k = 5 then CHR ''5''
      else if k = 6 then CHR ''6'' else if k = 7 then CHR ''7'' else if k = 8 then CHR ''8''
      else CHR ''9'')"

fun decimal :: "nat \<Rightarrow> string" where
  "decimal k = (if k < 10 then [digitChar k] else decimal (k div 10) @ [digitChar (k mod 10)])"

declare decimal.simps [simp del]

definition numberToString :: "int option \<Rightarrow> string" where
  "numberToString x =
     (case x of
        None \<Rightarrow> ''NaN''
      | Some i \<Rightarrow> if i < 0 then ''-'' @ decimal (nat (- i)) else decimal (nat i))"

section \<open>Configuration\<close>

text \<open>
  The environment is a partial map from variable names to values. \<open>CONFIG\<close> is the
  object of \<^verbatim>\<open>config/config.ts\<close>; \<open>defaultConfig\<close> is its value when no variable is
  set.
\<close>

definition CONFIG :: "(string \<Rightarrow> string option) \<Rightarrow> SummarizerConfiguration" where
  "CONFIG env =
     \<lparr>CONTEXT_LENGTH = parseInt (nullish (env ''CONTEXT_LENGTH'') ''8096'') None,
      MODEL_NAME = nullish (env ''MODEL_NAME'') ''llama3.2'',
      SUMMARY_MARKER = nullish (env ''SUMMARY_MARKER'') ''AI_SUMMARY'',
      SUMMARY_PROMPT = nullish (env ''SUMMARY_PROMPT'') ''Summarize the given text: ''\<rparr>"

definition defaultConfig :: SummarizerConfiguration where
  "defaultConfig =
     \<lparr>CONTEXT_LENGTH = Some 8096, MODEL_NAME = ''llama3.2'',
      SUMMARY_MARKER = ''AI_SUMMARY'', SUMMARY_PROMPT = ''Summarize the given text: ''\<rparr>"

definition ERR_MISSING_ENV_VARIABLES :: string where
  "ERR_MISSING_ENV_VARIABLES =
     ''The environment variables PAPERLESS_TOKEN and PAPERLESS_URL must be set in order to run the program.''"

definition validateEnvironmentVariables :: "string \<Rightarrow> string \<Rightarrow> error + unit" where
  "validateEnvironmentVariables key url =
     (if key = [] \<or> url = [] then Inl (Error ERR_MISSING_ENV_VARIABLES) else Inr ())"

text \<open>
  \<^verbatim>\<open>getEnvironmentVariables\<close> of \<^verbatim>\<open>utils/envUtils.ts\<close>. The conversion \<^verbatim>\<open>Number(x)\<close> of
  the runtime is the parameter \<open>toNumber\<close> (\<open>None\<close> is NaN).
\<close>

definition getEnvironmentVariables ::
  "(string option \<Rightarrow> int option) \<Rightarrow> (string \<Rightarrow> string option) \<Rightarrow> error + EnvConfig" where
  "getEnvironmentVariables toNumber env =
     (let key = nullish (env ''PAPERLESS_TOKEN'') [];
          url = nullish (env ''PAPERLESS_URL'') [];
          save = (case toNumber (env ''OUTPUT_TXT'') of None \<Rightarrow> 0 | Some k \<Rightarrow> k);
          path = nullish (env ''OUTPUT_PATH'') []
      in case validateEnvironmentVariables key url of
           Inl e \<Rightarrow> Inl e
         | Inr u \<Rightarrow> Inr \<lparr>apiKey = key, paperlessUrl = url, saveTxtPath = path,
                         saveTxtSummary = save\<rparr>)"

section \<open>The Document Service Client\<close>

text \<open>
  \<^verbatim>\<open>fetchDocument\<close> and \<^verbatim>\<open>postComment\<close> of \<^verbatim>\<open>utils/apiUtils.ts\<close>, on the outcome of
  the request they issue.
\<close>

definition fetchDocument :: "'a fetched \<Rightarrow> error + 'a" where
  "fetchDocument r =
     (case r of
        Rejects e \<Rightarrow> Inl e
      | Resolves resp \<Rightarrow>
          if \<not> ok resp then Inl (Error (''Failed to fetch document: '' @ statusText resp))
          else (case body resp of None \<Rightarrow> Inl SyntaxError | Some d \<Rightarrow> Inr d))"

definition postComment :: "'a fetched \<Rightarrow> error + 'a" where
  "postComment r =
     (case r of
        Rejects e \<Rightarrow> Inl e
      | Resolves resp \<Rightarrow>
          if \<not> ok resp
          then Inl (Error (''Error during note posting-request: '' @ statusText resp))
          else (case body resp of None \<Rightarrow> Inl SyntaxError | Some d \<Rightarrow> Inr d))"

section \<open>JSON text\<close>

text \<open>
  \<^verbatim>\<open>JSON.stringify\<close> on the values the code passes to it. A string is quoted as
  ECMAScript's QuoteJSONString does: the two-character escapes, \<^verbatim>\<open>\u00xx\<close> for the
  other control characters, everything else unchanged. A number is its decimal text and
  NaN is \<^verbatim>\<open>null\<close>. The object \<open>CONFIG\<close> has its four properties in the order of
  \<^verbatim>\<open>config/config.ts\<close>.
\<close>

definition hexDigitChar :: "nat \<Rightarrow> char" where
  "hexDigitChar k =
     (if k < 10 then digitChar k
      else if k = 10 then CHR ''a'' else if k = 11 then CHR ''b'' else if k = 12 then CHR ''c''
      else if k = 13 then CHR ''d'' else if k = 14 then CHR ''e'' else CHR ''f'')"

definition quoteJSONChar :: "char \<Rightarrow> string" where
  "quoteJSONChar c =
     (if c = CHR 0x08 then [CHR 0x5C, CHR ''b'']
      else if c = CHR 0x09 then [CHR 0x5C, CHR ''t'']
      else if c = CHR 0x0A then [CHR 0x5C, CHR ''n'']
      else if c = CHR 0x0C then [CHR 0x5C, CHR ''f'']
      else if c = CHR 0x0D then [CHR 0x5C, CHR ''r'']
      else if c = CHR 0x22 then [CHR 0x5C, CHR 0x22]
      else if c = CHR 0x5C then [CHR 0x5C, CHR 0x5C]
      else if (of_char c :: nat) < 32
      then [CHR 0x5C, CHR ''u'', CHR ''0'', CHR ''0'',
            hexDigitChar ((of_char c :: nat) div 16), hexDigitChar ((of_char c :: nat) mod 16)]
      else [c])"

definition quoteJSONString :: "string \<Rightarrow> string" where
  "quoteJSONString s = [CHR 0x22] @ concat (map quoteJSONChar s) @ [CHR 0x22]"

definition stringifyNumber :: "int option \<Rightarrow> string" where
  "stringifyNumber x = (case x of None \<Rightarrow> ''null'' | Some i \<Rightarrow> numberToString (Some i))"

definition stringifyCONFIG :: "SummarizerConfiguration \<Rightarrow> string" where
  \<open>stringifyCONFIG cfg =
     ''{"CONTEXT_LENGTH":'' @ stringifyNumber (CONTEXT_LENGTH cfg)
     @ '',"MODEL_NAME":'' @ quoteJSONString (MODEL_NAME cfg)
     @ '',"SUMMARY_MARKER":'' @ quoteJSONString (SUMMARY_MARKER cfg)
     @ '',"SUMMARY_PROMPT":'' @ quoteJSONString (SUMMARY_PROMPT cfg)
     @ ''}''\<close>

text \<open>
  The grammar of JSON texts (RFC 8259) without optional white space: the characters of
  a string are unescaped characters from \<open>0x20\<close> on other than the quotation mark and
  the backslash, or escapes; a number is an integer with an optional minus sign (the
  program writes no fractions and no exponents); a value is a literal, a number, a
  string, an array of values or an object of members.
\<close>

definition hexDigit :: "char \<Rightarrow> bool" where
  "hexDigit c = (c \<in> set ''0123456789abcdefABCDEF'')"

inductive jsonChars :: "string \<Rightarrow> bool" where
  jsonChars_Nil: "jsonChars []"
| jsonChars_Plain:
    "32 \<le> (of_char c :: nat) \<Longrightarrow> c \<noteq> CHR 0x22 \<Longrightarrow> c \<noteq> CHR 0x5C \<Longrightarrow> jsonChars s
     \<Longrightarrow> jsonChars (c # s)"
| jsonChars_Escape:
    "e \<in> set [CHR 0x22, CHR 0x5C, CHR ''/'', CHR ''b'', CHR ''f'', CHR ''n'', CHR ''r'', CHR ''t'']
     \<Longrightarrow> jsonChars s \<Longrightarrow> jsonChars (CHR 0x5C # e # s)"
| jsonChars_Unicode:
    "hexDigit a \<Longrightarrow> hexDigit b \<Longrightarrow> hexDigit c \<Longrightarrow> hexDigit d \<Longrightarrow> jsonChars s
     \<Longrightarrow> jsonChars (CHR 0x5C # CHR ''u'' # a # b # c # d # s)"

definition jsonString :: "string \<Rightarrow> bool" where
  "jsonString s = (\<exists>b. s = [CHR 0x22] @ b @ [CHR 0x22] \<and> jsonChars b)"

definition jsonInt :: "string \<Rightarrow> bool" where
  "jsonInt s =
     (s = ''0'' \<or> (case s of [] \<Rightarrow> False
                   | c # t \<Rightarrow> c \<in> set ''123456789'' \<and> list_all (\<lambda>x. x \<in> set ''0123456789'') t))"

definition jsonNumber :: "string \<Rightarrow> bool" where
  "jsonNumber s = (jsonInt s \<or> (case s of [] \<Rightarrow> False | c # t \<Rightarrow> c = CHR ''-'' \<and> jsonInt t))"

inductive jsonValue :: "string \<Rightarrow> bool"
  and jsonMembers :: "string \<Rightarrow> bool"
  and jsonElements :: "string \<Rightarrow> bool" where
  jsonNull: "jsonValue ''null''"
| jsonTrue: "jsonValue ''true''"
| jsonFalse: "jsonValue ''false''"
| jsonNum: "jsonNumber s \<Longrightarrow> jsonValue s"
| jsonStr: "jsonString s \<Longrightarrow> jsonValue s"
| jsonEmptyArray: "jsonValue ''[]''"
| jsonArray: "jsonElements es \<Longrightarrow> jsonValue (''['' @ es @ '']'')"
| jsonEmptyObject: "jsonValue ''{}''"
| jsonObject: "jsonMembers ms \<Longrightarrow> jsonValue (''{'' @ ms @ ''}'')"
| jsonMember: "jsonString k \<Longrightarrow> jsonValue v \<Longrightarrow> jsonMembers (k @ '':'' @ v)"
| jsonMemberMore:
    "jsonString k \<Longrightarrow> jsonValue v \<Longrightarrow> jsonMembers ms \<Longrightarrow> jsonMembers (k @ '':'' @ v @ '','' @ ms)"
| jsonElement: "jsonValue v \<Longrightarrow> jsonElements v"
| jsonElementMore: "jsonValue v \<Longrightarrow> jsonElements es \<Longrightarrow> jsonElements (v @ '','' @ es)"

section \<open>The Summary Generator\<close>

text \<open>
  The stream that \<^verbatim>\<open>ollama.generate\<close> returns: the chunks it yields, then either
  its end (\<open>failure = None\<close>) or an exception.
\<close>

record generation =
  chunks :: "string list"
  failure :: "error option"

text \<open>The \<^verbatim>\<open>for await\<close> loop of \<^verbatim>\<open>summarizeText\<close>, from the text accumulated so far.\<close>

fun summarizeText_loop :: "bool \<Rightarrow> string list \<Rightarrow> string \<Rightarrow> string \<times> event list" where
  "summarizeText_loop display [] summarizedText = (summarizedText, [])"
| "summarizeText_loop display (part # parts) summarizedText =
     emit (if display then [StdoutWrite part] else [])
       (summarizeText_loop display parts (summarizedText @ part))"

definition summarizeText ::
  "SummarizerConfiguration \<Rightarrow> string \<Rightarrow> bool \<Rightarrow> generation \<Rightarrow> (error + string) \<times> event list" where
  "summarizeText cfg text display g =
     emit [Generate (MODEL_NAME cfg) (SUMMARY_PROMPT cfg @ '' '' @ text)]
       (let r = summarizeText_loop display (chunks g) [] in
        (case failure g of None \<Rightarrow> Inr (fst r) | Some e \<Rightarrow> Inl e, snd r))"

section \<open>The Page Scanner of the summarizer\<close>

text \<open>
  \<^verbatim>\<open>note => note.note?.includes(CONFIG.SUMMARY_MARKER)\<close>: a note without text does
  not carry the marker.
\<close>

definition noteHasMarker :: "SummarizerConfiguration \<Rightarrow> PaperlessNote \<Rightarrow> bool" where
  "noteHasMarker cfg n =
     (case note_text n of None \<Rightarrow> False | Some t \<Rightarrow> string_includes t (SUMMARY_MARKER cfg))"

text \<open>
  The \<^verbatim>\<open>for (const d of page.results)\<close> loop of \<^verbatim>\<open>processDocumentPages\<close>, from the ids
  collected so far. \<^verbatim>\<open>!d.id\<close> holds for an absent id and for the id 0. A \<open>notes\<close>
  value that is truthy but no array has no method \<^verbatim>\<open>some\<close>: the call throws.
\<close>

fun processDocumentPages_results ::
  "SummarizerConfiguration \<Rightarrow> PaperlessDocument list \<Rightarrow> int list \<Rightarrow> error + int list" where
  "processDocumentPages_results cfg [] unsummarizedIds = Inr unsummarizedIds"
| "processDocumentPages_results cfg (d # ds) unsummarizedIds =
     (case doc_id d of
        None \<Rightarrow> processDocumentPages_results cfg ds unsummarizedIds
      | Some i \<Rightarrow>
          if i = 0 then processDocumentPages_results cfg ds unsummarizedIds
          else (case doc_notes d of
                  Absent \<Rightarrow> processDocumentPages_results cfg ds (unsummarizedIds @ [i])
                | NotArray \<Rightarrow> Inl TypeError
                | Arr ns \<Rightarrow>
                    if \<not> list_ex (noteHasMarker cfg) ns
                    then processDocumentPages_results cfg ds (unsummarizedIds @ [i])
                    else processDocumentPages_results cfg ds unsummarizedIds))"

text \<open>
  The \<^verbatim>\<open>while (hasPages)\<close> loop. Each iteration issues one request for \<open>nextPage\<close>
  and consumes the next response of the script. A page without \<open>results\<close> executes
  \<^verbatim>\<open>continue\<close>: the loop runs again with \<open>nextPage\<close> unchanged.
\<close>

fun processDocumentPages_loop ::
  "SummarizerConfiguration \<Rightarrow> string \<Rightarrow> int list \<Rightarrow> PaperlessSearchResult fetched list
   \<Rightarrow> int list outcome \<times> event list" where
  "processDocumentPages_loop cfg nextPage unsummarizedIds [] =
     (Pending, [Request (HttpGet nextPage)])"
| "processDocumentPages_loop cfg nextPage unsummarizedIds (r # rs) =
     emit [Request (HttpGet nextPage)]
       (case r of
          Rejects e \<Rightarrow> (Threw e, [])
        | Resolves resp \<Rightarrow>
            if \<not> ok resp
            then (Threw (Error (''Error on search request: '' @ statusText resp)), [])
            else (case body resp of
                    None \<Rightarrow> (Threw SyntaxError, [])
                  | Some page \<Rightarrow>
                      (case page_results page of
                         Absent \<Rightarrow> processDocumentPages_loop cfg nextPage unsummarizedIds rs
                       | NotArray \<Rightarrow> (Threw TypeError, [])
                       | Arr ds \<Rightarrow>
                           (case processDocumentPages_results cfg ds unsummarizedIds of
                              Inl e \<Rightarrow> (Threw e, [])
                            | Inr ids \<Rightarrow>
                                if falsy (page_next page) then (Returned ids, [])
                                else emit [ConsoleLog (ScanPageProcessed (length ids)
                                             (the (page_next page)))]
                                       (processDocumentPages_loop cfg (the (page_next page))
                                          ids rs)))))"

definition processDocumentPages ::
  "SummarizerConfiguration \<Rightarrow> string \<Rightarrow> PaperlessSearchResult fetched list
   \<Rightarrow> int list outcome \<times> event list" where
  "processDocumentPages cfg baseUrl rs =
     processDocumentPages_loop cfg (baseUrl @ ''/documents/?ordering=-id'') [] rs"

section \<open>The Cleanup Orchestrator: all-mode\<close>

text \<open>
  \<^verbatim>\<open>deleteComment\<close> of \<^verbatim>\<open>apiUtils.ts\<close>, on the outcome of its request: it throws
  unless the response is ok (its return value, the status code, is used by no caller).
\<close>

definition deleteComment :: "unit fetched \<Rightarrow> error + unit" where
  "deleteComment r =
     (case r of
        Rejects e \<Rightarrow> Inl e
      | Resolves resp \<Rightarrow>
          if \<not> ok resp
          then Inl (Error (''Error during note deletion-request: '' @ statusText resp))
          else Inr ())"

text \<open>
  \<^verbatim>\<open>note => typeof note.note === 'string' && note.note.includes(CONFIG.SUMMARY_MARKER)\<close>
  is \<open>noteHasMarker\<close> again. The deletions of one document are started in the order of
  its notes: each callback logs, issues its request and suspends. Their failures are
  logged when the requests settle; the model lists them in the order of the notes.
  \<open>del q\<close> is the outcome of the DELETE request \<open>q\<close>.
\<close>

definition deleteMarkedNotes ::
  "SummarizerConfiguration \<Rightarrow> string \<Rightarrow> (http \<Rightarrow> unit fetched) \<Rightarrow> int
   \<Rightarrow> PaperlessNote list \<Rightarrow> event list" where
  "deleteMarkedNotes cfg baseUrl del d ns =
     (let marked = filter (noteHasMarker cfg) ns in
      concat (map (\<lambda>n. [ConsoleLog (DeletingNote (note_id n) d),
                         Request (HttpDelete baseUrl (numberToString (Some d)) (note_id n))])
                marked)
      @ concat (map (\<lambda>n. case deleteComment
                                 (del (HttpDelete baseUrl (numberToString (Some d)) (note_id n))) of
                            Inl e \<Rightarrow> [ConsoleError (ErrorDeletingNote (note_id n) e)]
                          | Inr _ \<Rightarrow> []) marked))"

text \<open>The body of \<^verbatim>\<open>for (const d of page.results)\<close> in \<^verbatim>\<open>findAndDeleteSummaries\<close>.\<close>

definition findAndDeleteSummaries_document ::
  "SummarizerConfiguration \<Rightarrow> string \<Rightarrow> (http \<Rightarrow> unit fetched)
   \<Rightarrow> PaperlessDocument \<Rightarrow> event list" where
  "findAndDeleteSummaries_document cfg baseUrl del d =
     (case doc_id d of
        None \<Rightarrow> [ConsoleError (SkippingInvalidDocument d)]
      | Some i \<Rightarrow>
          if i = 0 then [ConsoleError (SkippingInvalidDocument d)]
          else (case doc_notes d of
                  Absent \<Rightarrow> [ConsoleError (SkippingInvalidDocument d)]
                | NotArray \<Rightarrow> [ConsoleError (SkippingInvalidDocument d)]
                | Arr ns \<Rightarrow> deleteMarkedNotes cfg baseUrl del i ns))"

text \<open>
  The \<^verbatim>\<open>while (nextPage)\<close> loop. A request that the 30 second timer aborts rejects
  with \<open>AbortError\<close>: the handler logs it and the loop runs again with \<open>nextPage\<close>
  unchanged; every other error is thrown again. A body that does not parse ends the
  function. A page whose \<open>results\<close> is no array executes \<^verbatim>\<open>continue\<close>, before
  \<open>nextPage\<close> is assigned.
\<close>

fun findAndDeleteSummaries_loop ::
  "SummarizerConfiguration \<Rightarrow> string \<Rightarrow> (http \<Rightarrow> unit fetched) \<Rightarrow> string
   \<Rightarrow> PaperlessSearchResult fetched list \<Rightarrow> unit outcome \<times> event list" where
  "findAndDeleteSummaries_loop cfg baseUrl del nextPage [] =
     (Pending, [Request (HttpGet nextPage)])"
| "findAndDeleteSummaries_loop cfg baseUrl del nextPage (r # rs) =
     emit [Request (HttpGet nextPage)]
       (case r of
          Rejects e \<Rightarrow>
            if e = AbortError
            then emit [ConsoleError RequestTimeout]
                   (findAndDeleteSummaries_loop cfg baseUrl del nextPage rs)
            else (Threw e, [])
        | Resolves resp \<Rightarrow>
            if \<not> ok resp
            then (Threw (Error (''Fehler bei der Suchanfrage: '' @ statusText resp)), [])
            else (case body resp of
                    None \<Rightarrow> (Returned (), [ConsoleError FailedToParseJSON])
                  | Some page \<Rightarrow>
                      (case page_results page of
                         Absent \<Rightarrow>
                           emit [ConsoleError InvalidResultsFormat]
                             (findAndDeleteSummaries_loop cfg baseUrl del nextPage rs)
                       | NotArray \<Rightarrow>
                           emit [ConsoleError InvalidResultsFormat]
                             (findAndDeleteSummaries_loop cfg baseUrl del nextPage rs)
                       | Arr ds \<Rightarrow>
                           emit (concat (map (findAndDeleteSummaries_document cfg baseUrl del) ds))
                             (if falsy (page_next page)
                              then (Returned (), [ConsoleLog (CleanupPageProcessed (page_next page))])
                              else if \<not> startsWith (the (page_next page)) baseUrl
                              then (Returned (),
                                    [ConsoleError (InvalidNextPageUrl (the (page_next page)))])
                              else emit [ConsoleLog (CleanupPageProcessed (page_next page))]
                                     (findAndDeleteSummaries_loop cfg baseUrl del
                                        (the (page_next page)) rs)))))"

definition findAndDeleteSummaries ::
  "SummarizerConfiguration \<Rightarrow> string \<Rightarrow> (http \<Rightarrow> unit fetched)
   \<Rightarrow> PaperlessSearchResult fetched list \<Rightarrow> unit outcome \<times> event list" where
  "findAndDeleteSummaries cfg baseUrl del rs =
     (if SUMMARY_MARKER cfg = []
      then (Threw (Error ''SUMMARY_MARKER is undefined''), [])
      else findAndDeleteSummaries_loop cfg baseUrl del (baseUrl @ ''/documents/?ordering=-id'') rs)"

section \<open>The Cleanup Orchestrator: single-document mode and entry point\<close>

text \<open>
  \<^verbatim>\<open>deleteAiNotesAtDocument\<close>, for a document id that is a number or NaN (\<open>None\<close>).
  The request goes to the notes of the document; the URL is written as the template
  string gives it. A failed fetch is logged and ends the
  function; a body that is no array throws. The deletions are started in the order of
  the notes, without a log line, and their failures are logged as they settle.
\<close>

definition deleteAiNotesAtDocument ::
  "SummarizerConfiguration \<Rightarrow> string \<Rightarrow> int option \<Rightarrow> PaperlessNote field fetched
   \<Rightarrow> (http \<Rightarrow> unit fetched) \<Rightarrow> unit outcome \<times> event list" where
  "deleteAiNotesAtDocument cfg url documentId r del =
     emit [ConsoleLog (CheckingForNotes documentId),
           Request (HttpGet (url @ ''/documents/'' @ numberToString documentId @ ''/notes/''))]
       (case fetchDocument r of
          Inl e \<Rightarrow> (Returned (), [ConsoleError (FailedToFetchNotes documentId e)])
        | Inr ns \<Rightarrow>
            (case ns of
               Arr xs \<Rightarrow>
                 (Returned (),
                  ConsoleLog (FoundNotes (length xs) documentId)
                  # (let marked = filter (noteHasMarker cfg) xs in
                     map (\<lambda>n. Request (HttpDelete url (numberToString documentId) (note_id n)))
                       marked
                     @ concat (map (\<lambda>n. case deleteComment
                                                (del (HttpDelete url (numberToString documentId)
                                                        (note_id n))) of
                                           Inl e \<Rightarrow> [ConsoleError (ErrorDeletingNote (note_id n) e)]
                                         | Inr _ \<Rightarrow> []) marked)))
             | _ \<Rightarrow>
                 (Threw (Error (''Unexpected data format for notes at document ID ''
                                @ numberToString documentId)), [])))"

text \<open>
  \<^verbatim>\<open>main\<close> of \<^verbatim>\<open>cleanupNotes.ts\<close>, for the command that passed the check at the top of
  the module. \<open>validURL\<close> says whether \<^verbatim>\<open>new URL(x)\<close> accepts \<open>x\<close>. The test on
  \<open>headers\<close> never fails for the object \<^verbatim>\<open>initHeaders\<close> builds and is left out.
\<close>

definition cleanup_main ::
  "(string \<Rightarrow> bool) \<Rightarrow> (string option \<Rightarrow> int option) \<Rightarrow> (string \<Rightarrow> string option) \<Rightarrow> string
   \<Rightarrow> PaperlessSearchResult fetched list \<Rightarrow> PaperlessNote field fetched
   \<Rightarrow> (http \<Rightarrow> unit fetched) \<Rightarrow> unit outcome \<times> event list" where
  \<open>cleanup_main validURL toNumber env command listing notesReply del =
     (case getEnvironmentVariables toNumber env of
        Inl e \<Rightarrow> (Threw e, [])
      | Inr envConfig \<Rightarrow>
          if \<not> validURL (paperlessUrl envConfig)
          then (Threw (Error (''Invalid Paperless API URL: '' @ paperlessUrl envConfig)), [])
          else (let documentId = parseInt command (Some 10) in
                if command \<noteq> ''all''
                   \<and> (case documentId of None \<Rightarrow> True | Some k \<Rightarrow> k \<le> 0)
                then (Threw (Error
                        ''Invalid command. Use "all" or a positive number as document ID.''), [])
                else if command = ''all''
                then findAndDeleteSummaries (CONFIG env) (paperlessUrl envConfig) del listing
                else deleteAiNotesAtDocument (CONFIG env) (paperlessUrl envConfig)
                       (parseInt (if command = [] then ''-999'' else command) None)
                       notesReply del))\<close>

text \<open>
  The module \<^verbatim>\<open>cleanupNotes.ts\<close> run with the arguments \<open>args\<close>: the check at its top
  throws, uncaught, before anything else; an error thrown by \<open>main\<close> is caught by
  \<^verbatim>\<open>main().catch(console.error)\<close> and printed.
\<close>

definition cleanupNotes ::
  "(string \<Rightarrow> bool) \<Rightarrow> (string option \<Rightarrow> int option) \<Rightarrow> (string \<Rightarrow> string option)
   \<Rightarrow> string list \<Rightarrow> PaperlessSearchResult fetched list \<Rightarrow> PaperlessNote field fetched
   \<Rightarrow> (http \<Rightarrow> unit fetched) \<Rightarrow> unit outcome \<times> event list" where
  "cleanupNotes validURL toNumber env args listing notesReply del =
     (case args of
        [command] \<Rightarrow>
          if command \<noteq> ''all'' \<and> parseInt command (Some 10) = None
          then (Threw (Error ''Usage: node script.js <all|number>''), [])
          else (let r = cleanup_main validURL toNumber env command listing notesReply del in
                case fst r of
                  Threw e \<Rightarrow> (Returned (), snd r @ [ConsoleError (Uncaught e)])
                | _ \<Rightarrow> r)
      | _ \<Rightarrow> (Threw (Error ''Usage: node script.js <all|number>''), []))"

section \<open>The Summary Writer\<close>

text \<open>
  What the world answers while one document is processed: the reply to the request for
  the document, the stream of the generation model, the reply to the POST of the note,
  and the error of the file system, if any, when the summary is written.
\<close>

record replies =
  fetchReply :: "PaperlessDocument fetched"
  generateReply :: generation
  postReply :: "PaperlessDocument fetched"
  writeError :: "error option"

text \<open>
  The body of the \<^verbatim>\<open>try\<close> block of \<^verbatim>\<open>main\<close> for one id: \<open>Inl e\<close> is the exception
  that leaves the block. \<^verbatim>\<open>!content\<close> holds for an absent and for an empty content.
  \<open>SaveFile\<close> is the call of \<^verbatim>\<open>saveSummaryToFile\<close>.
\<close>

definition main_document ::
  "SummarizerConfiguration \<Rightarrow> EnvConfig \<Rightarrow> int \<Rightarrow> replies \<Rightarrow> (error + unit) \<times> event list" where
  "main_document cfg envConfig i w =
     emit [Request (HttpGet (paperlessUrl envConfig @ ''/documents/''
                             @ numberToString (Some i) @ ''/''))]
       (case fetchDocument (fetchReply w) of
          Inl e \<Rightarrow> (Inl e, [])
        | Inr document \<Rightarrow>
            if falsy (doc_content document)
            then (Inl (Error ''Malformed document content. Skipping document.''), [])
            else (let g = summarizeText cfg (the (doc_content document)) False (generateReply w) in
                  emit (snd g)
                    (case fst g of
                       Inl e \<Rightarrow> (Inl e, [])
                     | Inr summary \<Rightarrow>
                         emit [ConsoleLog (PostingSummary i),
                               Request (HttpPost (paperlessUrl envConfig) (numberToString (Some i))
                                  (summary @ ''\<newline>\<newline>Model-Configuration:''
                                   @ stringifyCONFIG cfg @ ''\<newline>'' @ SUMMARY_MARKER cfg))]
                           (case postComment (postReply w) of
                              Inl e \<Rightarrow> (Inl e, [])
                            | Inr posted \<Rightarrow>
                                if saveTxtSummary envConfig \<noteq> 0
                                then emit [SaveFile i summary (saveTxtPath envConfig)]
                                       (case writeError w of
                                          Some e \<Rightarrow> (Inl e, [])
                                        | None \<Rightarrow> (Inr (), []))
                                else (Inr (), [])))))"

text \<open>
  The \<^verbatim>\<open>for (const id of unsummarizedDocumentIds)\<close> loop with its \<^verbatim>\<open>try\<close> and
  \<^verbatim>\<open>catch\<close>, over the ids paired with what the world answers for each.
\<close>

fun main_loop ::
  "SummarizerConfiguration \<Rightarrow> EnvConfig \<Rightarrow> (int \<times> replies) list \<Rightarrow> event list" where
  "main_loop cfg envConfig [] = []"
| "main_loop cfg envConfig ((i, w) # rest) =
     ConsoleLog (ProcessingDocument i)
     # snd (main_document cfg envConfig i w)
     @ (case fst (main_document cfg envConfig i w) of
          Inl e \<Rightarrow> [ConsoleError (ErrorProcessingDocument i e)]
        | Inr u \<Rightarrow> [])
     @ main_loop cfg envConfig rest"

text \<open>
  \<^verbatim>\<open>main\<close> of the summarizer: the scan, then the loop. \<open>world k\<close> is what the world
  answers for the \<open>k\<close>-th id of the scan.
\<close>

definition main ::
  "(string option \<Rightarrow> int option) \<Rightarrow> (string \<Rightarrow> string option)
   \<Rightarrow> PaperlessSearchResult fetched list \<Rightarrow> (nat \<Rightarrow> replies) \<Rightarrow> unit outcome \<times> event list" where
  "main toNumber env listing world =
     (case getEnvironmentVariables toNumber env of
        Inl e \<Rightarrow> (Threw e, [])
      | Inr envConfig \<Rightarrow>
          (let scan = processDocumentPages (CONFIG env) (paperlessUrl envConfig) listing in
           case fst scan of
             Returned ids \<Rightarrow>
               (Returned (),
                snd scan @ main_loop (CONFIG env) envConfig
                             (zip ids (map world [0..<length ids])))
           | Threw e \<Rightarrow> (Threw e, snd scan)
           | Pending \<Rightarrow> (Pending, snd scan)))"

text \<open>
  The failure of one document in the words of the specification: the fetch of the
  document fails, its content is absent or empty, the generation fails, the posting of
  the note fails, or, when local output is enabled, the file cannot be written.
\<close>

definition documentFailure :: "EnvConfig \<Rightarrow> replies \<Rightarrow> error option" where
  "documentFailure envConfig w =
     (case fetchDocument (fetchReply w) of
        Inl e \<Rightarrow> Some e
      | Inr document \<Rightarrow>
          if falsy (doc_content document)
          then Some (Error ''Malformed document content. Skipping document.'')
          else (case failure (generateReply w) of
                  Some e \<Rightarrow> Some e
                | None \<Rightarrow>
                    (case postComment (postReply w) of
                       Inl e \<Rightarrow> Some e
                     | Inr posted \<Rightarrow>
                         if saveTxtSummary envConfig \<noteq> 0 then writeError w else None)))"

text \<open>
  The note in the words of the specification: the summary, two newlines, the label
  \<^verbatim>\<open>Model-Configuration:\<close> followed by the JSON text of the configuration, a newline
  and the marker. A document is summarized, that is its note is posted, when it was
  fetched, has content and the generation ended without an exception.
\<close>

definition composedNote :: "SummarizerConfiguration \<Rightarrow> string \<Rightarrow> string" where
  "composedNote cfg summary =
     summary @ ''\<newline>\<newline>'' @ ''Model-Configuration:'' @ stringifyCONFIG cfg
     @ ''\<newline>'' @ SUMMARY_MARKER cfg"

definition summarized :: "replies \<Rightarrow> bool" where
  "summarized w =
     (case fetchDocument (fetchReply w) of
        Inl e \<Rightarrow> False
      | Inr document \<Rightarrow> \<not> falsy (doc_content document) \<and> failure (generateReply w) = None)"

text \<open>The ids whose processing the trace announces, in order.\<close>

definition processedIds :: "event list \<Rightarrow> int list" where
  "processedIds tr =
     concat (map (\<lambda>e. case e of ConsoleLog (ProcessingDocument i) \<Rightarrow> [i] | _ \<Rightarrow> []) tr)"

text \<open>The note bodies posted, in order.\<close>

definition postedNotes :: "event list \<Rightarrow> (string \<times> string) list" where
  "postedNotes tr =
     concat (map (\<lambda>e. case e of Request (HttpPost b d text) \<Rightarrow> [(d, text)] | _ \<Rightarrow> []) tr)"

section \<open>What the scan is specified to return\<close>

text \<open>
  The classification in the words of the specification: a document is summarized when
  at least one of its notes has a text that contains the marker as a substring; it
  qualifies for the result when its id is present and it is not summarized.
\<close>

definition hasMarkerNote :: "SummarizerConfiguration \<Rightarrow> PaperlessDocument \<Rightarrow> bool" where
  "hasMarkerNote cfg d =
     (case doc_notes d of
        Arr ns \<Rightarrow> list_ex (\<lambda>n. case note_text n of None \<Rightarrow> False
                                | Some t \<Rightarrow> sublist (SUMMARY_MARKER cfg) t) ns
      | _ \<Rightarrow> False)"

definition qualifies :: "SummarizerConfiguration \<Rightarrow> PaperlessDocument \<Rightarrow> bool" where
  "qualifies cfg d = (doc_id d \<noteq> None \<and> \<not> hasMarkerNote cfg d)"

definition qualifyingIds :: "SummarizerConfiguration \<Rightarrow> PaperlessDocument list \<Rightarrow> int list" where
  "qualifyingIds cfg ds = map (\<lambda>d. the (doc_id d)) (filter (qualifies cfg) ds)"

text \<open>
  Well-formed input, as the data model has it: an id, when present, is a positive
  integer (here: not 0, the one number that \<^verbatim>\<open>!d.id\<close> takes for absent), notes are
  absent or an array, and a listing page is an ok response whose body parses and has
  an array of well-formed documents as \<open>results\<close>.
\<close>

definition wellFormedDocument :: "PaperlessDocument \<Rightarrow> bool" where
  "wellFormedDocument d = (doc_id d \<noteq> Some 0 \<and> doc_notes d \<noteq> NotArray)"

definition pageOf :: "PaperlessSearchResult fetched \<Rightarrow> PaperlessSearchResult option" where
  "pageOf r = (case r of Rejects e \<Rightarrow> None
               | Resolves resp \<Rightarrow> if ok resp then body resp else None)"

definition documentsOf :: "PaperlessSearchResult fetched \<Rightarrow> PaperlessDocument list" where
  "documentsOf r = (case pageOf r of None \<Rightarrow> []
                    | Some page \<Rightarrow> (case page_results page of Arr ds \<Rightarrow> ds | _ \<Rightarrow> []))"

definition nextOf :: "PaperlessSearchResult fetched \<Rightarrow> string option" where
  "nextOf r = (case pageOf r of None \<Rightarrow> None | Some page \<Rightarrow> page_next page)"

definition wellFormedPage :: "PaperlessSearchResult fetched \<Rightarrow> bool" where
  "wellFormedPage r =
     (case pageOf r of None \<Rightarrow> False
      | Some page \<Rightarrow> (case page_results page of
                        Arr ds \<Rightarrow> list_all wellFormedDocument ds | _ \<Rightarrow> False))"

text \<open>
  A finite sequence of listing pages, as a crawl serves it: every page but the last
  has a \<open>next\<close> link, the last has none.
\<close>

fun wellFormedCrawl :: "PaperlessSearchResult fetched list \<Rightarrow> bool" where
  "wellFormedCrawl [] = False"
| "wellFormedCrawl [r] = (wellFormedPage r \<and> falsy (nextOf r))"
| "wellFormedCrawl (r # rs) = (wellFormedPage r \<and> \<not> falsy (nextOf r) \<and> wellFormedCrawl rs)"

text \<open>The \<open>next\<close> links of all pages but the last.\<close>

fun followed :: "PaperlessSearchResult fetched list \<Rightarrow> string list" where
  "followed [] = []"
| "followed [r] = []"
| "followed (r # rs) = the (nextOf r) # followed rs"

section \<open>Traces\<close>

lemma emit_simps:
  "fst (emit es r) = fst r"
  "snd (emit es r) = es @ snd r"
  "emit es (emit fs r) = emit (es @ fs) r"
  "emit [] r = r"
  by (simp_all add: emit_def)

lemma requests_simps:
  "requests [] = []"
  "requests (Request r # es) = r # requests es"
  "requests (ConsoleLog m # es) = requests es"
  "requests (ConsoleError m # es) = requests es"
  "requests (StdoutWrite t # es) = requests es"
  "requests (Generate a b # es) = requests es"
  "requests (SaveFile i c p # es) = requests es"
  "requests (xs @ ys) = requests xs @ requests ys"
  by (simp_all add: requests_def)

section \<open>Properties of the Summary Generator\<close>

lemma summarizeText_loop_text:
  "fst (summarizeText_loop display parts acc) = acc @ concat parts"
  by (induction parts arbitrary: acc) (simp_all add: emit_def)

lemma summarizeText_loop_stdout:
  "snd (summarizeText_loop display parts acc) = (if display then map StdoutWrite parts else [])"
  by (induction parts arbitrary: acc) (simp_all add: emit_def)

lemma summarizeText_result:
  "fst (summarizeText cfg text display g)
     = (case failure g of None \<Rightarrow> Inr (concat (chunks g)) | Some e \<Rightarrow> Inl e)"
  by (simp add: summarizeText_def emit_def Let_def summarizeText_loop_text split: option.splits)

lemma summarizeText_trace:
  "snd (summarizeText cfg text False g)
     = [Generate (MODEL_NAME cfg) (SUMMARY_PROMPT cfg @ '' '' @ text)]"
  by (simp add: summarizeText_def emit_def Let_def summarizeText_loop_stdout)

text \<open>
  C8. For every finite sequence of chunks that the stream yields before it ends,
  \<open>summarizeText\<close> returns their concatenation in arrival order. Whatever the stream
  does, the result is the same with and without the display flag; the flag decides
  only whether each chunk is also written, in the same order, to standard output.
\<close>

theorem summarizeText_concatenates_chunks:
  "fst (summarizeText cfg text display \<lparr>chunks = cs, failure = None\<rparr>) = Inr (concat cs)
   \<and> fst (summarizeText cfg text True g) = fst (summarizeText cfg text False g)
   \<and> snd (summarizeText cfg text display \<lparr>chunks = cs, failure = None\<rparr>)
       = Generate (MODEL_NAME cfg) (SUMMARY_PROMPT cfg @ '' '' @ text)
         # (if display then map StdoutWrite cs else [])"
  by (simp add: summarizeText_result)
     (simp add: summarizeText_def emit_def summarizeText_loop_stdout)

theorem summarizeText_concatenates_chunks_witness:
  "fst (summarizeText defaultConfig ''hello world'' True
          \<lparr>chunks = [''Sum'', ''mary'', ''Sum''], failure = None\<rparr>)
     = Inr ''SummarySum''
   \<and> snd (summarizeText defaultConfig ''hello world'' True
          \<lparr>chunks = [''Sum'', ''mary'', ''Sum''], failure = None\<rparr>)
     = [Generate ''llama3.2'' ''Summarize the given text:  hello world'',
        StdoutWrite ''Sum'', StdoutWrite ''mary'', StdoutWrite ''Sum'']"
  using summarizeText_concatenates_chunks
    [of defaultConfig "''hello world''" True "[''Sum'', ''mary'', ''Sum'']"
        "\<lparr>chunks = [''Sum'', ''mary'', ''Sum''], failure = None\<rparr>"]
  by (simp add: defaultConfig_def)

section \<open>Properties of the Page Scanner\<close>

lemma noteHasMarker_eq:
  "noteHasMarker cfg
     = (\<lambda>n. case note_text n of None \<Rightarrow> False | Some t \<Rightarrow> sublist (SUMMARY_MARKER cfg) t)"
  by (rule ext) (simp add: noteHasMarker_def string_includes_def split: option.splits)

lemma hasMarkerNote_eq:
  "hasMarkerNote cfg d =
     (case doc_notes d of Arr ns \<Rightarrow> list_ex (noteHasMarker cfg) ns | _ \<Rightarrow> False)"
  by (simp add: hasMarkerNote_def noteHasMarker_eq split: field.splits)

lemma qualifyingIds_append:
  "qualifyingIds cfg (xs @ ys) = qualifyingIds cfg xs @ qualifyingIds cfg ys"
  by (simp add: qualifyingIds_def)

text \<open>The loop over one page appends the qualifying ids of the page, in results order.\<close>

lemma processDocumentPages_results_wellFormed:
  "list_all wellFormedDocument ds \<Longrightarrow>
   processDocumentPages_results cfg ds acc = Inr (acc @ qualifyingIds cfg ds)"
proof (induction ds arbitrary: acc)
  case Nil
  then show ?case by (simp add: qualifyingIds_def)
next
  case (Cons d ds)
  then show ?case
    by (cases "doc_notes d")
       (auto simp: qualifyingIds_def qualifies_def hasMarkerNote_eq wellFormedDocument_def
          split: option.splits)
qed

lemma wellFormedPage_cases:
  assumes "wellFormedPage r"
  obtains resp page ds where "r = Resolves resp" "ok resp" "body resp = Some page"
    "page_results page = Arr ds" "list_all wellFormedDocument ds" "documentsOf r = ds"
    "nextOf r = page_next page"
  using assms
  by (auto simp: wellFormedPage_def pageOf_def documentsOf_def nextOf_def
      split: fetched.splits option.splits field.splits if_splits)

lemma processDocumentPages_loop_result:
  "wellFormedCrawl rs \<Longrightarrow>
   fst (processDocumentPages_loop cfg url acc rs)
     = Returned (acc @ qualifyingIds cfg (concat (map documentsOf rs)))"
proof (induction rs arbitrary: url acc rule: wellFormedCrawl.induct)
  case 1
  then show ?case by simp
next
  case (2 r)
  then have wf: "wellFormedPage r" and nx: "falsy (nextOf r)" by simp_all
  from wf show ?case
  proof (cases rule: wellFormedPage_cases)
    case (1 resp page ds)
    with nx show ?thesis by (simp add: emit_def processDocumentPages_results_wellFormed)
  qed
next
  case (3 r r' rs)
  then have wf: "wellFormedPage r" and nx: "\<not> falsy (nextOf r)"
    and rest: "wellFormedCrawl (r' # rs)" by simp_all
  from wf show ?case
  proof (cases rule: wellFormedPage_cases)
    case (1 resp page ds)
    with nx "3.IH"[OF rest] show ?thesis
      by (simp add: emit_def processDocumentPages_results_wellFormed qualifyingIds_append)
  qed
qed

lemma processDocumentPages_loop_requests:
  "wellFormedCrawl rs \<Longrightarrow>
   requests (snd (processDocumentPages_loop cfg url acc rs)) = map HttpGet (url # followed rs)"
proof (induction rs arbitrary: url acc rule: wellFormedCrawl.induct)
  case 1
  then show ?case by simp
next
  case (2 r)
  then have wf: "wellFormedPage r" and nx: "falsy (nextOf r)" by simp_all
  from wf show ?case
  proof (cases rule: wellFormedPage_cases)
    case (1 resp page ds)
    with nx show ?thesis
      by (simp add: emit_def processDocumentPages_results_wellFormed requests_def)
  qed
next
  case (3 r r' rs)
  then have wf: "wellFormedPage r" and nx: "\<not> falsy (nextOf r)"
    and rest: "wellFormedCrawl (r' # rs)" by simp_all
  from wf show ?case
  proof (cases rule: wellFormedPage_cases)
    case (1 resp page ds)
    with nx "3.IH"[OF rest, of "the (page_next page)"] show ?thesis
      by (simp add: emit_def processDocumentPages_results_wellFormed requests_def)
  qed
qed

text \<open>
  C1. For every finite sequence of well-formed listing pages in which exactly the last
  page has no \<open>next\<close> link, \<open>processDocumentPages\<close> returns, and what it returns is
  exactly the list of the ids of the documents that have an id and no note whose text
  contains the marker as a substring (documents without notes among them), in crawl
  order: page after page and, within a page, in the order of \<open>results\<close>. A document
  with a marker note and a document without an id contribute nothing.
\<close>

theorem processDocumentPages_returns_unsummarized:
  assumes "wellFormedCrawl rs"
  shows "fst (processDocumentPages cfg baseUrl rs)
           = Returned (qualifyingIds cfg (concat (map documentsOf rs)))"
  using processDocumentPages_loop_result [OF assms, of cfg _ "[]"]
  by (simp add: processDocumentPages_def)

theorem processDocumentPages_returns_unsummarized_witness:
  "wellFormedCrawl
     [served \<lparr>page_next = Some ''http://p/api/documents/?page=2'',
        page_results = Arr
          [\<lparr>doc_content = None, doc_id = Some 3,
             doc_notes = Arr [\<lparr>note_id = 9, note_text = Some ''x AI_SUMMARY y''\<rparr>]\<rparr>,
           \<lparr>doc_content = None, doc_id = Some 2, doc_notes = Absent\<rparr>,
           \<lparr>doc_content = None, doc_id = None, doc_notes = Arr []\<rparr>]\<rparr>,
      served \<lparr>page_next = None,
        page_results = Arr
          [\<lparr>doc_content = None, doc_id = Some 1,
             doc_notes = Arr [\<lparr>note_id = 4, note_text = Some ''hello''\<rparr>,
                              \<lparr>note_id = 5, note_text = None\<rparr>]\<rparr>]\<rparr>]
   \<and> fst (processDocumentPages defaultConfig ''http://p/api''
     [served \<lparr>page_next = Some ''http://p/api/documents/?page=2'',
        page_results = Arr
          [\<lparr>doc_content = None, doc_id = Some 3,
             doc_notes = Arr [\<lparr>note_id = 9, note_text = Some ''x AI_SUMMARY y''\<rparr>]\<rparr>,
           \<lparr>doc_content = None, doc_id = Some 2, doc_notes = Absent\<rparr>,
           \<lparr>doc_content = None, doc_id = None, doc_notes = Arr []\<rparr>]\<rparr>,
      served \<lparr>page_next = None,
        page_results = Arr
          [\<lparr>doc_content = None, doc_id = Some 1,
             doc_notes = Arr [\<lparr>note_id = 4, note_text = Some ''hello''\<rparr>,
                              \<lparr>note_id = 5, note_text = None\<rparr>]\<rparr>]\<rparr>])
     = Returned [2, 1]"
  using processDocumentPages_returns_unsummarized [of
     "[served \<lparr>page_next = Some ''http://p/api/documents/?page=2'',
        page_results = Arr
          [\<lparr>doc_content = None, doc_id = Some 3,
             doc_notes = Arr [\<lparr>note_id = 9, note_text = Some ''x AI_SUMMARY y''\<rparr>]\<rparr>,
           \<lparr>doc_content = None, doc_id = Some 2, doc_notes = Absent\<rparr>,
           \<lparr>doc_content = None, doc_id = None, doc_notes = Arr []\<rparr>]\<rparr>,
      served \<lparr>page_next = None,
        page_results = Arr
          [\<lparr>doc_content = None, doc_id = Some 1,
             doc_notes = Arr [\<lparr>note_id = 4, note_text = Some ''hello''\<rparr>,
                              \<lparr>note_id = 5, note_text = None\<rparr>]\<rparr>]\<rparr>]"
     defaultConfig "''http://p/api''"]
  by (simp add: served_def defaultConfig_def wellFormedPage_def pageOf_def nextOf_def
        documentsOf_def wellFormedDocument_def falsy_def qualifyingIds_def qualifies_def
        hasMarkerNote_def sublist_code)

text \<open>
  C5. Three well-formed pages, of which the first two have a \<open>next\<close> link and the third
  has none: the scan issues exactly three requests, for the seed URL (answered by the
  first page), for the first page's \<open>next\<close> and for the second page's \<open>next\<close>, in
  that order, and returns the qualifying ids of the first page, then those of the
  second, then those of the third, each in the order of its \<open>results\<close>.
\<close>

theorem processDocumentPages_three_pages:
  assumes "wellFormedPage p1" and "wellFormedPage p2" and "wellFormedPage p3"
    and "\<not> falsy (nextOf p1)" and "\<not> falsy (nextOf p2)" and "falsy (nextOf p3)"
  shows "fst (processDocumentPages cfg baseUrl [p1, p2, p3])
           = Returned (qualifyingIds cfg (documentsOf p1) @ qualifyingIds cfg (documentsOf p2)
                       @ qualifyingIds cfg (documentsOf p3))
         \<and> requests (snd (processDocumentPages cfg baseUrl [p1, p2, p3]))
           = [HttpGet (baseUrl @ ''/documents/?ordering=-id''),
              HttpGet (the (nextOf p1)), HttpGet (the (nextOf p2))]"
proof -
  from assms have wf: "wellFormedCrawl [p1, p2, p3]" by simp
  show ?thesis
    using processDocumentPages_loop_result [OF wf, of cfg _ "[]"]
      processDocumentPages_loop_requests [OF wf, of cfg _ "[]"]
    by (simp add: processDocumentPages_def qualifyingIds_append)
qed

theorem processDocumentPages_three_pages_witness:
  "fst (processDocumentPages defaultConfig ''http://p/api''
     [served \<lparr>page_next = Some ''http://p/api/documents/?page=2'',
        page_results = Arr
          [\<lparr>doc_content = None, doc_id = Some 6, doc_notes = Arr []\<rparr>,
           \<lparr>doc_content = None, doc_id = Some 5,
             doc_notes = Arr [\<lparr>note_id = 1, note_text = Some ''AI_SUMMARY''\<rparr>]\<rparr>]\<rparr>,
      served \<lparr>page_next = Some ''http://p/api/documents/?page=3'',
        page_results = Arr
          [\<lparr>doc_content = None, doc_id = Some 4, doc_notes = Absent\<rparr>,
           \<lparr>doc_content = None, doc_id = Some 3, doc_notes = Absent\<rparr>]\<rparr>,
      served \<lparr>page_next = None,
        page_results = Arr
          [\<lparr>doc_content = None, doc_id = Some 2,
             doc_notes = Arr [\<lparr>note_id = 2, note_text = Some ''seen''\<rparr>]\<rparr>]\<rparr>])
     = Returned [6, 4, 3, 2]
   \<and> requests (snd (processDocumentPages defaultConfig ''http://p/api''
     [served \<lparr>page_next = Some ''http://p/api/documents/?page=2'',
        page_results = Arr
          [\<lparr>doc_content = None, doc_id = Some 6, doc_notes = Arr []\<rparr>,
           \<lparr>doc_content = None, doc_id = Some 5,
             doc_notes = Arr [\<lparr>note_id = 1, note_text = Some ''AI_SUMMARY''\<rparr>]\<rparr>]\<rparr>,
      served \<lparr>page_next = Some ''http://p/api/documents/?page=3'',
        page_results = Arr
          [\<lparr>doc_content = None, doc_id = Some 4, doc_notes = Absent\<rparr>,
           \<lparr>doc_content = None, doc_id = Some 3, doc_notes = Absent\<rparr>]\<rparr>,
      served \<lparr>page_next = None,
        page_results = Arr
          [\<lparr>doc_content = None, doc_id = Some 2,
             doc_notes = Arr [\<lparr>note_id = 2, note_text = Some ''seen''\<rparr>]\<rparr>]\<rparr>]))
     = [HttpGet ''http://p/api/documents/?ordering=-id'',
        HttpGet ''http://p/api/documents/?page=2'',
        HttpGet ''http://p/api/documents/?page=3'']"
  using processDocumentPages_three_pages [of
     "served \<lparr>page_next = Some ''http://p/api/documents/?page=2'',
        page_results = Arr
          [\<lparr>doc_content = None, doc_id = Some 6, doc_notes = Arr []\<rparr>,
           \<lparr>doc_content = None, doc_id = Some 5,
             doc_notes = Arr [\<lparr>note_id = 1, note_text = Some ''AI_SUMMARY''\<rparr>]\<rparr>]\<rparr>"
     "served \<lparr>page_next = Some ''http://p/api/documents/?page=3'',
        page_results = Arr
          [\<lparr>doc_content = None, doc_id = Some 4, doc_notes = Absent\<rparr>,
           \<lparr>doc_content = None, doc_id = Some 3, doc_notes = Absent\<rparr>]\<rparr>"
     "served \<lparr>page_next = None,
        page_results = Arr
          [\<lparr>doc_content = None, doc_id = Some 2,
             doc_notes = Arr [\<lparr>note_id = 2, note_text = Some ''seen''\<rparr>]\<rparr>]\<rparr>"
     defaultConfig "''http://p/api''"]
  by (simp add: served_def defaultConfig_def wellFormedPage_def pageOf_def nextOf_def
        documentsOf_def wellFormedDocument_def falsy_def qualifyingIds_def qualifies_def
        hasMarkerNote_def sublist_code)

text \<open>
  C4. The scan of the summarizer does not compare \<open>next\<close> with the base URL: a page
  whose \<open>next\<close> points to another host is followed, and the request for that URL is
  issued (with the same headers, which carry the token).
\<close>

theorem processDocumentPages_follows_foreign_next:
  "processDocumentPages cfg ''https://paperless.example/api''
     [served \<lparr>page_next = Some ''https://evil.example/steal'', page_results = Arr []\<rparr>]
   = (Pending,
      [Request (HttpGet ''https://paperless.example/api/documents/?ordering=-id''),
       ConsoleLog (ScanPageProcessed 0 ''https://evil.example/steal''),
       Request (HttpGet ''https://evil.example/steal'')])
   \<and> \<not> startsWith ''https://evil.example/steal'' ''https://paperless.example/api''"
  by (simp add: processDocumentPages_def served_def emit_def falsy_def startsWith_def)

text \<open>
  A page without \<open>results\<close> leaves \<open>nextPage\<close> as it is: as long as the same page
  is served, the same URL is requested, and the loop does not end.
\<close>

lemma processDocumentPages_loop_refetch:
  "page_results page = Absent \<Longrightarrow>
   processDocumentPages_loop cfg url acc (replicate k (served page))
     = (Pending, replicate (Suc k) (Request (HttpGet url)))"
  by (induction k) (simp_all add: served_def emit_def)

lemma findAndDeleteSummaries_loop_refetch:
  "page_results page = Absent \<or> page_results page = NotArray \<Longrightarrow>
   fst (findAndDeleteSummaries_loop cfg baseUrl del url (replicate k (served page))) = Pending
   \<and> requests (snd (findAndDeleteSummaries_loop cfg baseUrl del url (replicate k (served page))))
       = replicate (Suc k) (HttpGet url)"
  by (induction k) (auto simp add: served_def emit_def requests_simps)

text \<open>
  C9. A listing page without \<open>results\<close> is not skipped. Both crawls run their loop
  again with the URL they just requested, so that the page's \<open>next\<close> is never
  followed: served the same page again, they request the same URL again. The cleanup
  crawl logs the diagnostic each time, the scan of the summarizer logs nothing; and a
  \<open>results\<close> value that is no array makes the scan throw.
\<close>

theorem missing_results_refetches_same_page:
  "processDocumentPages cfg ''http://p/api''
      [served \<lparr>page_next = Some ''http://p/api/documents/?page=2'', page_results = Absent\<rparr>,
       served \<lparr>page_next = Some ''http://p/api/documents/?page=2'', page_results = Absent\<rparr>]
     = (Pending, [Request (HttpGet ''http://p/api/documents/?ordering=-id''),
                  Request (HttpGet ''http://p/api/documents/?ordering=-id''),
                  Request (HttpGet ''http://p/api/documents/?ordering=-id'')])
   \<and> findAndDeleteSummaries defaultConfig ''http://p/api'' del
      [served \<lparr>page_next = Some ''http://p/api/documents/?page=2'', page_results = Absent\<rparr>,
       served \<lparr>page_next = Some ''http://p/api/documents/?page=2'', page_results = Absent\<rparr>]
     = (Pending, [Request (HttpGet ''http://p/api/documents/?ordering=-id''),
                  ConsoleError InvalidResultsFormat,
                  Request (HttpGet ''http://p/api/documents/?ordering=-id''),
                  ConsoleError InvalidResultsFormat,
                  Request (HttpGet ''http://p/api/documents/?ordering=-id'')])
   \<and> processDocumentPages cfg ''http://p/api''
      [served \<lparr>page_next = Some ''http://p/api/documents/?page=2'', page_results = NotArray\<rparr>]
     = (Threw TypeError, [Request (HttpGet ''http://p/api/documents/?ordering=-id'')])"
  by (simp add: processDocumentPages_def findAndDeleteSummaries_def defaultConfig_def
        served_def emit_def)

section \<open>Properties of the all-mode cleanup crawl\<close>

lemma deleteMarkedNotes_requests:
  "requests (deleteMarkedNotes cfg baseUrl del i ns)
     = map (\<lambda>n. HttpDelete baseUrl (numberToString (Some i)) (note_id n))
         (filter (noteHasMarker cfg) ns)"
proof -
  have a: "requests (concat (map (\<lambda>n. [ConsoleLog (DeletingNote (note_id n) i),
                         Request (HttpDelete baseUrl (numberToString (Some i)) (note_id n))]) ms))
        = map (\<lambda>n. HttpDelete baseUrl (numberToString (Some i)) (note_id n)) ms" for ms
    by (induction ms) (simp_all add: requests_simps)
  have b: "requests (concat (map (\<lambda>n. case deleteComment
                                 (del (HttpDelete baseUrl (numberToString (Some i)) (note_id n))) of
                            Inl e \<Rightarrow> [ConsoleError (ErrorDeletingNote (note_id n) e)]
                          | Inr _ \<Rightarrow> []) ms)) = []" for ms
    by (induction ms) (simp_all add: requests_simps split: sum.splits)
  show ?thesis
    by (simp add: deleteMarkedNotes_def Let_def a b requests_simps)
qed

lemma findAndDeleteSummaries_document_requests:
  "requests (findAndDeleteSummaries_document cfg baseUrl del d)
     = (case doc_id d of None \<Rightarrow> [] | Some i \<Rightarrow>
          if i = 0 then [] else
          (case doc_notes d of
             Arr ns \<Rightarrow> map (\<lambda>n. HttpDelete baseUrl (numberToString (Some i)) (note_id n))
                         (filter (noteHasMarker cfg) ns)
           | _ \<Rightarrow> []))"
  by (simp add: findAndDeleteSummaries_document_def deleteMarkedNotes_requests requests_simps
        split: option.splits field.splits)

lemma findAndDeleteSummaries_document_no_get:
  "HttpGet u \<notin> set (requests (findAndDeleteSummaries_document cfg baseUrl del d))"
  by (auto simp: findAndDeleteSummaries_document_requests split: option.splits field.splits)

lemma findAndDeleteSummaries_documents_no_get:
  "HttpGet u \<notin> set (requests (concat (map (findAndDeleteSummaries_document cfg baseUrl del) ds)))"
  by (induction ds) (simp_all add: requests_simps findAndDeleteSummaries_document_no_get)

lemma findAndDeleteSummaries_loop_gets_prefixed:
  "prefix baseUrl url \<Longrightarrow>
   HttpGet u \<in> set (requests (snd (findAndDeleteSummaries_loop cfg baseUrl del url rs))) \<Longrightarrow>
   prefix baseUrl u"
proof (induction rs arbitrary: url)
  case Nil
  then show ?case by (simp add: requests_simps)
next
  case (Cons r rs)
  show ?case
  proof (cases r)
    case (Rejects e)
    with Cons show ?thesis
      by (auto simp: emit_def requests_simps split: if_splits)
  next
    case (Resolves resp)
    with Cons show ?thesis
      by (auto simp: emit_def requests_simps findAndDeleteSummaries_documents_no_get
          startsWith_def split: if_splits option.splits field.splits)
  qed
qed

lemma findAndDeleteSummaries_loop_invalid_next:
  assumes "ok resp" and "body resp = Some page" and "page_results page = Arr ds"
    and "page_next page = Some n" and "n \<noteq> []" and "\<not> startsWith n baseUrl"
  shows "findAndDeleteSummaries_loop cfg baseUrl del url (Resolves resp # rs)
           = (Returned (),
              Request (HttpGet url)
              # concat (map (findAndDeleteSummaries_document cfg baseUrl del) ds)
              @ [ConsoleError (InvalidNextPageUrl n)])"
  using assms by (simp add: emit_def falsy_def)

lemma findAndDeleteSummaries_loop_step:
  assumes "fst (findAndDeleteSummaries_loop cfg baseUrl del url (r # pre)) = Pending"
  shows "\<exists>es url'. \<forall>X. findAndDeleteSummaries_loop cfg baseUrl del url (r # X)
            = emit (Request (HttpGet url) # es) (findAndDeleteSummaries_loop cfg baseUrl del url' X)"
proof (cases r)
  case (Rejects e)
  with assms have e: "e = AbortError" by (auto simp: emit_simps split: if_splits)
  show ?thesis
    by (rule exI [of _ "[ConsoleError RequestTimeout]"], rule exI [of _ url])
       (simp add: Rejects e emit_simps)
next
  case (Resolves resp)
  with assms obtain page where p: "ok resp" "body resp = Some page"
    by (auto simp: emit_simps split: if_splits option.splits)
  show ?thesis
  proof (cases "page_results page")
    case Absent
    show ?thesis
      by (rule exI [of _ "[ConsoleError InvalidResultsFormat]"], rule exI [of _ url])
         (simp add: Resolves p Absent emit_simps)
  next
    case NotArray
    show ?thesis
      by (rule exI [of _ "[ConsoleError InvalidResultsFormat]"], rule exI [of _ url])
         (simp add: Resolves p NotArray emit_simps)
  next
    case (Arr ds)
    with assms Resolves p have n: "\<not> falsy (page_next page)"
      "startsWith (the (page_next page)) baseUrl"
      by (auto simp: emit_simps split: if_splits)
    show ?thesis
      by (rule exI [of _ "concat (map (findAndDeleteSummaries_document cfg baseUrl del) ds)
                          @ [ConsoleLog (CleanupPageProcessed (page_next page))]"],
          rule exI [of _ "the (page_next page)"])
         (simp add: Resolves p Arr n emit_simps)
  qed
qed

lemma findAndDeleteSummaries_loop_pending:
  "fst (findAndDeleteSummaries_loop cfg baseUrl del url pre) = Pending \<Longrightarrow>
   \<exists>u tr0. snd (findAndDeleteSummaries_loop cfg baseUrl del url pre) = tr0 @ [Request (HttpGet u)]
     \<and> (\<forall>more. findAndDeleteSummaries_loop cfg baseUrl del url (pre @ more)
                 = emit tr0 (findAndDeleteSummaries_loop cfg baseUrl del u more))"
proof (induction pre arbitrary: url)
  case Nil
  show ?case
    by (rule exI [of _ url], rule exI [of _ "[]"]) (simp add: emit_simps)
next
  case (Cons r pre)
  from findAndDeleteSummaries_loop_step [OF Cons.prems]
  obtain es url' where step:
    "\<And>X. findAndDeleteSummaries_loop cfg baseUrl del url (r # X)
            = emit (Request (HttpGet url) # es) (findAndDeleteSummaries_loop cfg baseUrl del url' X)"
    by blast
  have "fst (findAndDeleteSummaries_loop cfg baseUrl del url' pre)
          = fst (findAndDeleteSummaries_loop cfg baseUrl del url (r # pre))"
    by (simp only: step emit_simps)
  with Cons.prems
  have "fst (findAndDeleteSummaries_loop cfg baseUrl del url' pre) = Pending"
    by (simp only:)
  from Cons.IH [OF this] obtain u tr0 where
    tr: "snd (findAndDeleteSummaries_loop cfg baseUrl del url' pre) = tr0 @ [Request (HttpGet u)]"
    and ext: "\<And>more. findAndDeleteSummaries_loop cfg baseUrl del url' (pre @ more)
                 = emit tr0 (findAndDeleteSummaries_loop cfg baseUrl del u more)"
    by blast
  show ?case
    by (rule exI [of _ u], rule exI [of _ "Request (HttpGet url) # es @ tr0"])
       (simp add: step tr ext emit_simps del: findAndDeleteSummaries_loop.simps)
qed

text \<open>
  C3, corrected. Suppose the all-mode crawl has issued a request and is waiting for
  its answer (\<open>Pending\<close> after the responses \<open>pre\<close>, with trace \<open>tr\<close>), and the
  answer is an ok page whose \<open>results\<close> is an array and whose \<open>next\<close> is present,
  not empty and does not start with the base URL. Then the code first handles the
  documents of this page, which issues the DELETE requests for their marker notes, then
  logs the offending URL and returns: nothing is requested after those deletions,
  whatever responses \<open>rs\<close> might follow, and the offending URL is never requested.
\<close>

theorem findAndDeleteSummaries_stops_at_invalid_next:
  assumes "findAndDeleteSummaries cfg baseUrl del pre = (Pending, tr)"
    and "ok resp" and "body resp = Some page" and "page_results page = Arr ds"
    and "page_next page = Some n" and "n \<noteq> []" and "\<not> startsWith n baseUrl"
  shows "findAndDeleteSummaries cfg baseUrl del (pre @ Resolves resp # rs)
           = (Returned (),
              tr @ concat (map (findAndDeleteSummaries_document cfg baseUrl del) ds)
              @ [ConsoleError (InvalidNextPageUrl n)])
         \<and> HttpGet n \<notin> set (requests (snd (findAndDeleteSummaries cfg baseUrl del
                                              (pre @ Resolves resp # rs))))"
proof -
  from assms(1) have m: "SUMMARY_MARKER cfg \<noteq> []"
    and run: "findAndDeleteSummaries_loop cfg baseUrl del (baseUrl @ ''/documents/?ordering=-id'') pre
                = (Pending, tr)"
    by (auto simp: findAndDeleteSummaries_def split: if_splits)
  from run have "fst (findAndDeleteSummaries_loop cfg baseUrl del
                        (baseUrl @ ''/documents/?ordering=-id'') pre) = Pending"
    by simp
  from findAndDeleteSummaries_loop_pending [OF this]
  obtain u tr0 where "snd (findAndDeleteSummaries_loop cfg baseUrl del
                        (baseUrl @ ''/documents/?ordering=-id'') pre) = tr0 @ [Request (HttpGet u)]"
    and ext: "\<And>more. findAndDeleteSummaries_loop cfg baseUrl del
                        (baseUrl @ ''/documents/?ordering=-id'') (pre @ more)
                 = emit tr0 (findAndDeleteSummaries_loop cfg baseUrl del u more)"
    by blast
  with run have tr: "tr = tr0 @ [Request (HttpGet u)]" by simp
  have first: "findAndDeleteSummaries cfg baseUrl del (pre @ Resolves resp # rs)
           = (Returned (),
              tr @ concat (map (findAndDeleteSummaries_document cfg baseUrl del) ds)
              @ [ConsoleError (InvalidNextPageUrl n)])"
    using m assms(2-)
    by (simp add: findAndDeleteSummaries_def ext tr emit_def falsy_def
          del: findAndDeleteSummaries_loop.simps
          add: findAndDeleteSummaries_loop_invalid_next)
  have "prefix baseUrl (baseUrl @ ''/documents/?ordering=-id'')" by simp
  from findAndDeleteSummaries_loop_gets_prefixed [OF this, of n cfg del "pre @ Resolves resp # rs"]
    assms(7)
  have "HttpGet n \<notin> set (requests (snd (findAndDeleteSummaries cfg baseUrl del
                                              (pre @ Resolves resp # rs))))"
    using m by (auto simp: findAndDeleteSummaries_def startsWith_def)
  with first show ?thesis by blast
qed

theorem findAndDeleteSummaries_stops_at_invalid_next_witness:
  "findAndDeleteSummaries defaultConfig ''http://p/api'' deleteSucceeds
       [served \<lparr>page_next = Some ''http://p/api/documents/?page=2'', page_results = Arr []\<rparr>]
     = (Pending, [Request (HttpGet ''http://p/api/documents/?ordering=-id''),
                  ConsoleLog (CleanupPageProcessed (Some ''http://p/api/documents/?page=2'')),
                  Request (HttpGet ''http://p/api/documents/?page=2'')])
   \<and> \<not> startsWith ''http://evil.example/p3'' ''http://p/api''
   \<and> findAndDeleteSummaries defaultConfig ''http://p/api'' deleteSucceeds
       ([served \<lparr>page_next = Some ''http://p/api/documents/?page=2'', page_results = Arr []\<rparr>]
        @ Resolves \<lparr>ok = True, statusText = ''OK'', body = Some
          \<lparr>page_next = Some ''http://evil.example/p3'',
           page_results = Arr
             [\<lparr>doc_content = None, doc_id = Some 7, doc_notes = Arr
                [\<lparr>note_id = 1, note_text = Some ''AI_SUMMARY blah''\<rparr>,
                 \<lparr>note_id = 2, note_text = Some ''unrelated''\<rparr>]\<rparr>]\<rparr>\<rparr>
        # [served \<lparr>page_next = None, page_results = Arr []\<rparr>])
     = (Returned (),
        [Request (HttpGet ''http://p/api/documents/?ordering=-id''),
         ConsoleLog (CleanupPageProcessed (Some ''http://p/api/documents/?page=2'')),
         Request (HttpGet ''http://p/api/documents/?page=2''),
         ConsoleLog (DeletingNote 1 7),
         Request (HttpDelete ''http://p/api'' ''7'' 1),
         ConsoleError (InvalidNextPageUrl ''http://evil.example/p3'')])"
  using findAndDeleteSummaries_stops_at_invalid_next [of defaultConfig "''http://p/api''"
      deleteSucceeds
      "[served \<lparr>page_next = Some ''http://p/api/documents/?page=2'', page_results = Arr []\<rparr>]"
      "[Request (HttpGet ''http://p/api/documents/?ordering=-id''),
        ConsoleLog (CleanupPageProcessed (Some ''http://p/api/documents/?page=2'')),
        Request (HttpGet ''http://p/api/documents/?page=2'')]"
      "\<lparr>ok = True, statusText = ''OK'', body = Some
          \<lparr>page_next = Some ''http://evil.example/p3'',
           page_results = Arr
             [\<lparr>doc_content = None, doc_id = Some 7, doc_notes = Arr
                [\<lparr>note_id = 1, note_text = Some ''AI_SUMMARY blah''\<rparr>,
                 \<lparr>note_id = 2, note_text = Some ''unrelated''\<rparr>]\<rparr>]\<rparr>\<rparr>"
      "\<lparr>page_next = Some ''http://evil.example/p3'',
           page_results = Arr
             [\<lparr>doc_content = None, doc_id = Some 7, doc_notes = Arr
                [\<lparr>note_id = 1, note_text = Some ''AI_SUMMARY blah''\<rparr>,
                 \<lparr>note_id = 2, note_text = Some ''unrelated''\<rparr>]\<rparr>]\<rparr>"
      "[\<lparr>doc_content = None, doc_id = Some 7, doc_notes = Arr
                [\<lparr>note_id = 1, note_text = Some ''AI_SUMMARY blah''\<rparr>,
                 \<lparr>note_id = 2, note_text = Some ''unrelated''\<rparr>]\<rparr>]"
      "''http://evil.example/p3''" "[served \<lparr>page_next = None, page_results = Arr []\<rparr>]"]
  by (simp add: findAndDeleteSummaries_def defaultConfig_def startsWith_def served_def
        deleteSucceeds_def emit_def falsy_def
        findAndDeleteSummaries_document_def deleteMarkedNotes_def noteHasMarker_def
        string_includes_def sublist_code deleteComment_def numberToString_def decimal.simps
        digitChar_def)

text \<open>
  The claim as it was stated fails: after the page with the offending \<open>next\<close> has been
  fetched, a further HTTP request is issued, the DELETE of the page's marker note.
\<close>

theorem findAndDeleteSummaries_requests_after_invalid_next:
  "\<not> startsWith ''http://evil.example/p2'' ''http://p/api''
   \<and> requests (snd (findAndDeleteSummaries defaultConfig ''http://p/api'' deleteSucceeds
       [served \<lparr>page_next = Some ''http://evil.example/p2'',
           page_results = Arr
             [\<lparr>doc_content = None, doc_id = Some 7, doc_notes = Arr
                [\<lparr>note_id = 1, note_text = Some ''AI_SUMMARY blah''\<rparr>,
                 \<lparr>note_id = 2, note_text = Some ''unrelated''\<rparr>]\<rparr>]\<rparr>]))
     = [HttpGet ''http://p/api/documents/?ordering=-id'',
        HttpDelete ''http://p/api'' ''7'' 1]"
  by (simp add: findAndDeleteSummaries_def defaultConfig_def startsWith_def served_def
        deleteSucceeds_def emit_def falsy_def requests_simps
        findAndDeleteSummaries_document_def deleteMarkedNotes_def noteHasMarker_def
        string_includes_def sublist_code deleteComment_def numberToString_def decimal.simps
        digitChar_def)

section \<open>Properties of the cleanup entry point\<close>

lemmas parseInt_eval =
  parseInt_def isWhiteSpace_def isRadixDigit_def digitValue_def digitsValue_def Let_def

text \<open>
  C10. When \<open>SUMMARY_MARKER\<close> is set to the empty string, \<^verbatim>\<open>??\<close> keeps the empty
  string. With the token and a valid URL set, the argument check and the validation of
  the environment succeed, and \<open>findAndDeleteSummaries\<close> throws before its loop: no
  request is issued, whatever the server would have answered.
\<close>

theorem empty_marker_stops_cleanup:
  assumes "env ''PAPERLESS_TOKEN'' = Some token" and "token \<noteq> []"
    and "env ''PAPERLESS_URL'' = Some url" and "url \<noteq> []" and "validURL url"
    and "env ''SUMMARY_MARKER'' = Some []"
  shows "SUMMARY_MARKER (CONFIG env) = []
       \<and> (\<forall>cfg. SUMMARY_MARKER cfg = []
            \<longrightarrow> findAndDeleteSummaries cfg url del listing
                = (Threw (Error ''SUMMARY_MARKER is undefined''), []))
       \<and> findAndDeleteSummaries (CONFIG env) url del listing
           = (Threw (Error ''SUMMARY_MARKER is undefined''), [])
       \<and> cleanupNotes validURL toNumber env [''all''] listing notesReply del
           = (Returned (), [ConsoleError (Uncaught (Error ''SUMMARY_MARKER is undefined''))])
       \<and> (\<exists>envConfig. getEnvironmentVariables toNumber env = Inr envConfig)"
  using assms
  by (simp add: cleanupNotes_def cleanup_main_def getEnvironmentVariables_def
        validateEnvironmentVariables_def nullish_def findAndDeleteSummaries_def CONFIG_def Let_def)

theorem empty_marker_stops_cleanup_witness:
  "cleanupNotes (\<lambda>u. True) (\<lambda>x. None)
     (\<lambda>k. if k = ''PAPERLESS_TOKEN'' then Some ''secret''
          else if k = ''PAPERLESS_URL'' then Some ''http://p/api''
          else if k = ''SUMMARY_MARKER'' then Some [] else None)
     [''all''] [served \<lparr>page_next = None, page_results = Arr []\<rparr>] (served (Arr []))
     deleteSucceeds
   = (Returned (), [ConsoleError (Uncaught (Error ''SUMMARY_MARKER is undefined''))])"
  using empty_marker_stops_cleanup [of
     "\<lambda>k. if k = ''PAPERLESS_TOKEN'' then Some ''secret''
          else if k = ''PAPERLESS_URL'' then Some ''http://p/api''
          else if k = ''SUMMARY_MARKER'' then Some [] else None"
     "''secret''" "''http://p/api''" "\<lambda>u. True" deleteSucceeds
     "[served \<lparr>page_next = None, page_results = Arr []\<rparr>]" "\<lambda>x. None" "served (Arr [])"]
  by simp

text \<open>
  C7. \<^verbatim>\<open>parseInt\<close> reads the digits at the start of the argument and ignores what
  follows them, so the argument \<^verbatim>\<open>5abc\<close>, which is neither \<^verbatim>\<open>all\<close> nor a positive
  integer, passes both checks and the notes of document 5 are requested. The argument
  \<^verbatim>\<open>-5\<close> is refused by \<open>main\<close> before any request.
\<close>

theorem cleanupNotes_accepts_trailing_text:
  \<open>cleanupNotes (\<lambda>u. True) toNumber
     (\<lambda>k. if k = ''PAPERLESS_TOKEN'' then Some ''secret''
          else if k = ''PAPERLESS_URL'' then Some ''http://p/api'' else None)
     [''5abc''] listing (Rejects (Error ''offline'')) del
   = (Returned (),
      [ConsoleLog (CheckingForNotes (Some 5)),
       Request (HttpGet ''http://p/api/documents/5/notes/''),
       ConsoleError (FailedToFetchNotes (Some 5) (Error ''offline''))])
   \<and> cleanupNotes (\<lambda>u. True) toNumber
     (\<lambda>k. if k = ''PAPERLESS_TOKEN'' then Some ''secret''
          else if k = ''PAPERLESS_URL'' then Some ''http://p/api'' else None)
     [''-5''] listing notesReply del
   = (Returned (),
      [ConsoleError (Uncaught (Error
         ''Invalid command. Use "all" or a positive number as document ID.''))])\<close>
  by (simp add: cleanupNotes_def cleanup_main_def getEnvironmentVariables_def
        validateEnvironmentVariables_def nullish_def parseInt_eval deleteAiNotesAtDocument_def
        emit_def fetchDocument_def numberToString_def decimal.simps digitChar_def)

section \<open>The serialized configuration is a JSON text\<close>

lemma hexDigit_hexDigitChar: "k < 16 \<Longrightarrow> hexDigit (hexDigitChar k)"
  by (simp add: hexDigit_def hexDigitChar_def digitChar_def)

lemma decimal_digits:
  "list_all (\<lambda>x. x \<in> set ''0123456789'') (decimal k)"
proof (induction k rule: decimal.induct)
  case (1 k)
  have d: "digitChar j \<in> set ''0123456789''" for j
    by (simp add: digitChar_def)
  show ?case
  proof (cases "k < 10")
    case True
    then show ?thesis using d by (subst decimal.simps) simp
  next
    case False
    with 1 d show ?thesis by (subst decimal.simps) simp
  qed
qed

lemma jsonChars_quoteJSONChar:
  assumes "jsonChars s"
  shows "jsonChars (quoteJSONChar c @ s)"
proof -
  consider (escape) "c \<in> {CHR 0x08, CHR 0x09, CHR 0x0A, CHR 0x0C, CHR 0x0D, CHR 0x22, CHR 0x5C}"
    | (control) "c \<notin> {CHR 0x08, CHR 0x09, CHR 0x0A, CHR 0x0C, CHR 0x0D, CHR 0x22, CHR 0x5C}"
        "(of_char c :: nat) < 32"
    | (plain) "c \<notin> {CHR 0x08, CHR 0x09, CHR 0x0A, CHR 0x0C, CHR 0x0D, CHR 0x22, CHR 0x5C}"
        "32 \<le> (of_char c :: nat)"
    by (cases "(of_char c :: nat) < 32") auto
  then show ?thesis
  proof cases
    case escape
    then obtain e where "quoteJSONChar c = [CHR 0x5C, e]"
      and "e \<in> set [CHR 0x22, CHR 0x5C, CHR ''/'', CHR ''b'', CHR ''f'', CHR ''n'', CHR ''r'',
                     CHR ''t'']"
      by (auto simp: quoteJSONChar_def)
    with assms show ?thesis by (simp add: jsonChars_Escape del: set_simps)
  next
    case control
    have "(of_char c :: nat) div 16 < 16" "(of_char c :: nat) mod 16 < 16"
      using control(2) by simp_all
    then have "hexDigit (hexDigitChar ((of_char c :: nat) div 16))"
      "hexDigit (hexDigitChar ((of_char c :: nat) mod 16))"
      by (simp_all add: hexDigit_hexDigitChar)
    moreover have "hexDigit (CHR ''0'')" by (simp add: hexDigit_def)
    ultimately have "jsonChars (CHR 0x5C # CHR ''u'' # CHR ''0'' # CHR ''0''
        # hexDigitChar ((of_char c :: nat) div 16) # hexDigitChar ((of_char c :: nat) mod 16) # s)"
      using assms by (intro jsonChars_Unicode)
    with control show ?thesis by (simp add: quoteJSONChar_def)
  next
    case plain
    with assms show ?thesis by (simp add: quoteJSONChar_def jsonChars_Plain)
  qed
qed

lemma jsonChars_quoted: "jsonChars (concat (map quoteJSONChar s))"
  by (induction s) (simp_all add: jsonChars_Nil jsonChars_quoteJSONChar)

lemma jsonString_quoteJSONString: "jsonString (quoteJSONString s)"
  unfolding jsonString_def quoteJSONString_def
  using jsonChars_quoted by blast


lemma decimal_leading:
  "0 < k \<Longrightarrow> \<exists>c t. decimal k = c # t \<and> c \<in> set ''123456789''"
proof (induction k rule: decimal.induct)
  case (1 k)
  show ?case
  proof (cases "k < 10")
    case True
    with 1(2) show ?thesis by (subst decimal.simps) (auto simp: digitChar_def)
  next
    case False
    then have "0 < k div 10" by simp
    with 1(1) False obtain c t where "decimal (k div 10) = c # t" "c \<in> set ''123456789''"
      by blast
    with False show ?thesis by (subst decimal.simps) simp
  qed
qed


lemma jsonInt_decimal: "jsonInt (decimal k)"
proof (cases "k = 0")
  case True
  then show ?thesis by (simp add: jsonInt_def digitChar_def decimal.simps)
next
  case False
  then obtain c t where ct: "decimal k = c # t" "c \<in> set ''123456789''"
    using decimal_leading by blast
  with decimal_digits [of k] show ?thesis
    by (simp add: jsonInt_def)
qed

lemma jsonValue_stringifyNumber: "jsonValue (stringifyNumber x)"
proof (cases x)
  case None
  then show ?thesis by (simp add: stringifyNumber_def jsonNull)
next
  case (Some i)
  then show ?thesis
    using jsonInt_decimal
    by (auto simp: stringifyNumber_def numberToString_def jsonNumber_def intro!: jsonNum)
qed


lemma jsonValue_stringifyCONFIG: "jsonValue (stringifyCONFIG cfg)"
proof -
  have k: \<open>jsonString ''"CONTEXT_LENGTH"''\<close> \<open>jsonString ''"MODEL_NAME"''\<close>
    \<open>jsonString ''"SUMMARY_MARKER"''\<close> \<open>jsonString ''"SUMMARY_PROMPT"''\<close>
    using jsonString_quoteJSONString [of "''CONTEXT_LENGTH''"]
      jsonString_quoteJSONString [of "''MODEL_NAME''"]
      jsonString_quoteJSONString [of "''SUMMARY_MARKER''"]
      jsonString_quoteJSONString [of "''SUMMARY_PROMPT''"]
    by (simp_all add: quoteJSONString_def quoteJSONChar_def)
  have m: \<open>jsonMembers
     (''"CONTEXT_LENGTH"'' @ '':'' @ stringifyNumber (CONTEXT_LENGTH cfg) @ '','' @
      (''"MODEL_NAME"'' @ '':'' @ quoteJSONString (MODEL_NAME cfg) @ '','' @
       (''"SUMMARY_MARKER"'' @ '':'' @ quoteJSONString (SUMMARY_MARKER cfg) @ '','' @
        (''"SUMMARY_PROMPT"'' @ '':'' @ quoteJSONString (SUMMARY_PROMPT cfg)))))\<close>
    by (intro jsonMemberMore jsonMember k jsonValue_stringifyNumber jsonStr
          jsonString_quoteJSONString)
  from jsonObject [OF m] show ?thesis
    by (simp add: stringifyCONFIG_def)
qed

section \<open>Properties of the Summary Writer\<close>

lemma main_document_result:
  "fst (main_document cfg envConfig i w)
     = (case documentFailure envConfig w of Some e \<Rightarrow> Inl e | None \<Rightarrow> Inr ())"
  by (simp add: main_document_def documentFailure_def emit_def Let_def summarizeText_result
        split: sum.splits option.splits)

lemma processedIds_simps:
  "processedIds [] = []"
  "processedIds (xs @ ys) = processedIds xs @ processedIds ys"
  "processedIds (ConsoleLog (ProcessingDocument i) # xs) = i # processedIds xs"
  "processedIds (Request q # xs) = processedIds xs"
  "processedIds (ConsoleError m # xs) = processedIds xs"
  "processedIds (StdoutWrite t # xs) = processedIds xs"
  "processedIds (Generate a b # xs) = processedIds xs"
  "processedIds (SaveFile i c p # xs) = processedIds xs"
  "processedIds (ConsoleLog (PostingSummary i) # xs) = processedIds xs"
  by (simp_all add: processedIds_def)

lemma postedNotes_simps:
  "postedNotes [] = []"
  "postedNotes (xs @ ys) = postedNotes xs @ postedNotes ys"
  "postedNotes (Request (HttpPost b d t) # xs) = (d, t) # postedNotes xs"
  "postedNotes (Request (HttpGet u) # xs) = postedNotes xs"
  "postedNotes (ConsoleLog m # xs) = postedNotes xs"
  "postedNotes (ConsoleError m # xs) = postedNotes xs"
  "postedNotes (StdoutWrite t # xs) = postedNotes xs"
  "postedNotes (Generate a c # xs) = postedNotes xs"
  "postedNotes (SaveFile i c p # xs) = postedNotes xs"
  by (simp_all add: postedNotes_def)

lemma main_document_processedIds:
  "processedIds (snd (main_document cfg envConfig i w)) = []"
  by (simp add: main_document_def emit_def Let_def summarizeText_result summarizeText_trace
        processedIds_simps split: sum.splits option.splits)

lemma main_document_postedNotes:
  "postedNotes (snd (main_document cfg envConfig i w))
     = (if summarized w
        then [(numberToString (Some i), composedNote cfg (concat (chunks (generateReply w))))]
        else [])"
  by (simp add: main_document_def emit_def Let_def summarizeText_result summarizeText_trace
        postedNotes_simps summarized_def composedNote_def split: sum.splits option.splits)

lemma main_loop_append:
  "main_loop cfg envConfig (xs @ ys) = main_loop cfg envConfig xs @ main_loop cfg envConfig ys"
  by (induction xs) auto

lemma main_loop_processedIds:
  "processedIds (main_loop cfg envConfig jobs) = map fst jobs"
  by (induction jobs)
     (auto simp: processedIds_simps main_document_processedIds split: sum.splits)

lemma main_loop_postedNotes:
  "postedNotes (main_loop cfg envConfig jobs)
     = map (\<lambda>(i, w). (numberToString (Some i), composedNote cfg (concat (chunks (generateReply w)))))
         (filter (\<lambda>(i, w). summarized w) jobs)"
  by (induction jobs)
     (auto simp: postedNotes_simps main_document_postedNotes split: sum.splits)

lemma main_loop_logs_failure:
  "(i, w) \<in> set jobs \<Longrightarrow> documentFailure envConfig w = Some e \<Longrightarrow>
   ConsoleError (ErrorProcessingDocument i e) \<in> set (main_loop cfg envConfig jobs)"
  by (induction jobs) (auto simp: main_document_result)

lemma composedNote_suffix: "suffix (''\<newline>'' @ SUMMARY_MARKER cfg) (composedNote cfg s)"
  unfolding composedNote_def suffix_def by (metis append.assoc)

text \<open>
  C2. The notes that the main loop posts are, in order, those of the documents it
  summarizes, and the body of each is exactly the generated summary (the concatenation
  of the chunks), two newlines, the label \<^verbatim>\<open>Model-Configuration:\<close>, the JSON text of
  the configuration, a newline and the marker. Such a body ends with a newline followed
  by the marker, and the text between the label and that newline is a valid JSON text.
  For document 42 with content \<^verbatim>\<open>hello world\<close> and the chunks \<^verbatim>\<open>Sum\<close>, \<^verbatim>\<open>mary\<close>, one
  note is posted, and its body starts with the summary, two newlines and the label.
\<close>

theorem main_posts_composed_note:
  "postedNotes (main_loop cfg envConfig jobs)
     = map (\<lambda>(i, w). (numberToString (Some i),
                       concat (chunks (generateReply w)) @ ''\<newline>\<newline>Model-Configuration:''
                       @ stringifyCONFIG cfg @ ''\<newline>'' @ SUMMARY_MARKER cfg))
         (filter (\<lambda>(i, w). summarized w) jobs)
   \<and> suffix (''\<newline>'' @ SUMMARY_MARKER cfg) (composedNote cfg summary)
   \<and> composedNote cfg summary
       = summary @ ''\<newline>\<newline>'' @ ''Model-Configuration:'' @ stringifyCONFIG cfg
         @ ''\<newline>'' @ SUMMARY_MARKER cfg
   \<and> jsonValue (stringifyCONFIG cfg)
   \<and> postedNotes (main_loop cfg envConfig
         [(42, \<lparr>fetchReply = served \<lparr>doc_content = Some ''hello world'', doc_id = Some 42,
                                     doc_notes = ns\<rparr>,
                generateReply = \<lparr>chunks = [''Sum'', ''mary''], failure = None\<rparr>,
                postReply = pr, writeError = we\<rparr>)])
       = [(''42'', composedNote cfg ''Summary'')]
   \<and> prefix ''Summary\<newline>\<newline>Model-Configuration:'' (composedNote cfg ''Summary'')"
proof -
  have a: "postedNotes (main_loop cfg envConfig jobs)
     = map (\<lambda>(i, w). (numberToString (Some i),
                       concat (chunks (generateReply w)) @ ''\<newline>\<newline>Model-Configuration:''
                       @ stringifyCONFIG cfg @ ''\<newline>'' @ SUMMARY_MARKER cfg))
         (filter (\<lambda>(i, w). summarized w) jobs)"
    by (simp add: main_loop_postedNotes composedNote_def)
  have b: "postedNotes (main_loop cfg envConfig
         [(42, \<lparr>fetchReply = served \<lparr>doc_content = Some ''hello world'', doc_id = Some 42,
                                     doc_notes = ns\<rparr>,
                generateReply = \<lparr>chunks = [''Sum'', ''mary''], failure = None\<rparr>,
                postReply = pr, writeError = we\<rparr>)])
       = [(''42'', composedNote cfg ''Summary'')]"
    by (simp only: main_loop_postedNotes)
       (simp add: summarized_def fetchDocument_def served_def falsy_def
          numberToString_def decimal.simps digitChar_def)
  have c: "prefix ''Summary\<newline>\<newline>Model-Configuration:'' (composedNote cfg ''Summary'')"
    by (simp add: composedNote_def)
  from a b c composedNote_suffix [of cfg summary] jsonValue_stringifyCONFIG [of cfg]
  show ?thesis by (simp add: composedNote_def)
qed

theorem main_posts_composed_note_witness:
  \<open>postedNotes (main_loop defaultConfig
       \<lparr>apiKey = ''secret'', paperlessUrl = ''http://p/api'', saveTxtPath = ''out'',
        saveTxtSummary = 1\<rparr>
       [(42, \<lparr>fetchReply = served \<lparr>doc_content = Some ''hello world'', doc_id = Some 42,
                                   doc_notes = Absent\<rparr>,
              generateReply = \<lparr>chunks = [''Sum'', ''mary''], failure = None\<rparr>,
              postReply = served \<lparr>doc_content = None, doc_id = Some 42, doc_notes = Absent\<rparr>,
              writeError = None\<rparr>),
        (41, \<lparr>fetchReply = served \<lparr>doc_content = Some [], doc_id = Some 41,
                                   doc_notes = Absent\<rparr>,
              generateReply = \<lparr>chunks = [''never''], failure = None\<rparr>,
              postReply = served \<lparr>doc_content = None, doc_id = Some 41, doc_notes = Absent\<rparr>,
              writeError = None\<rparr>)])
   = [(''42'', ''Summary\<newline>\<newline>Model-Configuration:{"CONTEXT_LENGTH":8096,"MODEL_NAME":"llama3.2","SUMMARY_MARKER":"AI_SUMMARY","SUMMARY_PROMPT":"Summarize the given text: "}\<newline>AI_SUMMARY'')]\<close>
  using main_posts_composed_note [of defaultConfig
       "\<lparr>apiKey = ''secret'', paperlessUrl = ''http://p/api'', saveTxtPath = ''out'',
        saveTxtSummary = 1\<rparr>"
       "[(42, \<lparr>fetchReply = served \<lparr>doc_content = Some ''hello world'', doc_id = Some 42,
                                   doc_notes = Absent\<rparr>,
              generateReply = \<lparr>chunks = [''Sum'', ''mary''], failure = None\<rparr>,
              postReply = served \<lparr>doc_content = None, doc_id = Some 42, doc_notes = Absent\<rparr>,
              writeError = None\<rparr>),
        (41, \<lparr>fetchReply = served \<lparr>doc_content = Some [], doc_id = Some 41,
                                   doc_notes = Absent\<rparr>,
              generateReply = \<lparr>chunks = [''never''], failure = None\<rparr>,
              postReply = served \<lparr>doc_content = None, doc_id = Some 41, doc_notes = Absent\<rparr>,
              writeError = None\<rparr>)]"]
  by (simp add: defaultConfig_def summarized_def fetchDocument_def served_def falsy_def
        stringifyCONFIG_def stringifyNumber_def quoteJSONString_def quoteJSONChar_def
        numberToString_def decimal.simps digitChar_def del: main_loop.simps)

text \<open>
  C6. The main loop announces every id of its list, in order, whatever happens to any
  of them: the events of the documents before and after a document do not depend on
  it. The body of the \<^verbatim>\<open>try\<close> block throws exactly when the document fails (its
  fetch fails, its content is absent or empty, the generation fails, the posting fails,
  or the file cannot be written), the exception is caught and logged with the id of
  the document, and \<open>main\<close> returns whenever its scan returned.
\<close>

theorem main_loop_isolates_failures:
  "processedIds (main_loop cfg envConfig jobs) = map fst jobs
   \<and> (\<forall>(i, w) \<in> set jobs. \<forall>e. documentFailure envConfig w = Some e
         \<longrightarrow> ConsoleError (ErrorProcessingDocument i e) \<in> set (main_loop cfg envConfig jobs))
   \<and> main_loop cfg envConfig (before @ job # after)
       = main_loop cfg envConfig before @ main_loop cfg envConfig [job]
         @ main_loop cfg envConfig after
   \<and> fst (main_document cfg envConfig i w)
       = (case documentFailure envConfig w of Some e \<Rightarrow> Inl e | None \<Rightarrow> Inr ())
   \<and> (\<forall>ec ids. getEnvironmentVariables toNumber env = Inr ec
         \<and> fst (processDocumentPages (CONFIG env) (paperlessUrl ec) listing) = Returned ids
         \<longrightarrow> fst (main toNumber env listing world) = Returned ())"
proof -
  have "main_loop cfg envConfig (before @ job # after)
       = main_loop cfg envConfig before @ main_loop cfg envConfig [job]
         @ main_loop cfg envConfig after"
    using main_loop_append [of cfg envConfig before "[job] @ after"]
      main_loop_append [of cfg envConfig "[job]" after]
    by simp
  moreover have "\<forall>ec ids. getEnvironmentVariables toNumber env = Inr ec
         \<and> fst (processDocumentPages (CONFIG env) (paperlessUrl ec) listing) = Returned ids
         \<longrightarrow> fst (main toNumber env listing world) = Returned ()"
    by (simp add: main_def Let_def)
  moreover have "\<forall>(i, w) \<in> set jobs. \<forall>e. documentFailure envConfig w = Some e
         \<longrightarrow> ConsoleError (ErrorProcessingDocument i e) \<in> set (main_loop cfg envConfig jobs)"
    using main_loop_logs_failure [of _ _ jobs envConfig _ cfg] by blast
  ultimately show ?thesis
    using main_loop_processedIds [of cfg envConfig jobs] main_document_result [of cfg envConfig i w]
    by simp
qed

theorem main_loop_isolates_failures_witness:
  "processedIds (main_loop defaultConfig
       \<lparr>apiKey = ''secret'', paperlessUrl = ''http://p/api'', saveTxtPath = ''out'',
        saveTxtSummary = 1\<rparr>
       [(1, \<lparr>fetchReply = Rejects (Error ''offline''),
             generateReply = \<lparr>chunks = [], failure = None\<rparr>,
             postReply = served \<lparr>doc_content = None, doc_id = Some 1, doc_notes = Absent\<rparr>,
             writeError = None\<rparr>),
        (2, \<lparr>fetchReply = served \<lparr>doc_content = Some [], doc_id = Some 2, doc_notes = Absent\<rparr>,
             generateReply = \<lparr>chunks = [], failure = None\<rparr>,
             postReply = served \<lparr>doc_content = None, doc_id = Some 2, doc_notes = Absent\<rparr>,
             writeError = None\<rparr>),
        (3, \<lparr>fetchReply = served \<lparr>doc_content = Some ''text'', doc_id = Some 3,
                                  doc_notes = Absent\<rparr>,
             generateReply = \<lparr>chunks = [''Su''], failure = Some (Error ''model unavailable'')\<rparr>,
             postReply = served \<lparr>doc_content = None, doc_id = Some 3, doc_notes = Absent\<rparr>,
             writeError = None\<rparr>),
        (4, \<lparr>fetchReply = served \<lparr>doc_content = Some ''text'', doc_id = Some 4,
                                  doc_notes = Absent\<rparr>,
             generateReply = \<lparr>chunks = [''Sum'', ''mary''], failure = None\<rparr>,
             postReply = Resolves \<lparr>ok = False, statusText = ''Forbidden'', body = None\<rparr>,
             writeError = None\<rparr>),
        (5, \<lparr>fetchReply = served \<lparr>doc_content = Some ''text'', doc_id = Some 5,
                                  doc_notes = Absent\<rparr>,
             generateReply = \<lparr>chunks = [''Sum'', ''mary''], failure = None\<rparr>,
             postReply = served \<lparr>doc_content = None, doc_id = Some 5, doc_notes = Absent\<rparr>,
             writeError = Some (Error ''disk full'')\<rparr>),
        (6, \<lparr>fetchReply = served \<lparr>doc_content = Some ''text'', doc_id = Some 6,
                                  doc_notes = Absent\<rparr>,
             generateReply = \<lparr>chunks = [''Sum'', ''mary''], failure = None\<rparr>,
             postReply = served \<lparr>doc_content = None, doc_id = Some 6, doc_notes = Absent\<rparr>,
             writeError = None\<rparr>)])
     = [1, 2, 3, 4, 5, 6]
   \<and> documentFailure
        \<lparr>apiKey = ''secret'', paperlessUrl = ''http://p/api'', saveTxtPath = ''out'',
         saveTxtSummary = 1\<rparr>
        \<lparr>fetchReply = served \<lparr>doc_content = Some ''text'', doc_id = Some 4, doc_notes = Absent\<rparr>,
         generateReply = \<lparr>chunks = [''Sum'', ''mary''], failure = None\<rparr>,
         postReply = Resolves \<lparr>ok = False, statusText = ''Forbidden'', body = None\<rparr>,
         writeError = None\<rparr>
     = Some (Error ''Error during note posting-request: Forbidden'')
   \<and> ConsoleError (ErrorProcessingDocument 4
        (Error ''Error during note posting-request: Forbidden''))
     \<in> set (main_loop defaultConfig
       \<lparr>apiKey = ''secret'', paperlessUrl = ''http://p/api'', saveTxtPath = ''out'',
        saveTxtSummary = 1\<rparr>
       [(1, \<lparr>fetchReply = Rejects (Error ''offline''),
             generateReply = \<lparr>chunks = [], failure = None\<rparr>,
             postReply = served \<lparr>doc_content = None, doc_id = Some 1, doc_notes = Absent\<rparr>,
             writeError = None\<rparr>),
        (2, \<lparr>fetchReply = served \<lparr>doc_content = Some [], doc_id = Some 2, doc_notes = Absent\<rparr>,
             generateReply = \<lparr>chunks = [], failure = None\<rparr>,
             postReply = served \<lparr>doc_content = None, doc_id = Some 2, doc_notes = Absent\<rparr>,
             writeError = None\<rparr>),
        (3, \<lparr>fetchReply = served \<lparr>doc_content = Some ''text'', doc_id = Some 3,
                                  doc_notes = Absent\<rparr>,
             generateReply = \<lparr>chunks = [''Su''], failure = Some (Error ''model unavailable'')\<rparr>,
             postReply = served \<lparr>doc_content = None, doc_id = Some 3, doc_notes = Absent\<rparr>,
             writeError = None\<rparr>),
        (4, \<lparr>fetchReply = served \<lparr>doc_content = Some ''text'', doc_id = Some 4,
                                  doc_notes = Absent\<rparr>,
             generateReply = \<lparr>chunks = [''Sum'', ''mary''], failure = None\<rparr>,
             postReply = Resolves \<lparr>ok = False, statusText = ''Forbidden'', body = None\<rparr>,
             writeError = None\<rparr>),
        (5, \<lparr>fetchReply = served \<lparr>doc_content = Some ''text'', doc_id = Some 5,
                                  doc_notes = Absent\<rparr>,
             generateReply = \<lparr>chunks = [''Sum'', ''mary''], failure = None\<rparr>,
             postReply = served \<lparr>doc_content = None, doc_id = Some 5, doc_notes = Absent\<rparr>,
             writeError = Some (Error ''disk full'')\<rparr>),
        (6, \<lparr>fetchReply = served \<lparr>doc_content = Some ''text'', doc_id = Some 6,
                                  doc_notes = Absent\<rparr>,
             generateReply = \<lparr>chunks = [''Sum'', ''mary''], failure = None\<rparr>,
             postReply = served \<lparr>doc_content = None, doc_id = Some 6, doc_notes = Absent\<rparr>,
             writeError = None\<rparr>)])"
  using main_loop_isolates_failures [of defaultConfig
       "\<lparr>apiKey = ''secret'', paperlessUrl = ''http://p/api'', saveTxtPath = ''out'',
        saveTxtSummary = 1\<rparr>"
       "[(1, \<lparr>fetchReply = Rejects (Error ''offline''),
             generateReply = \<lparr>chunks = [], failure = None\<rparr>,
             postReply = served \<lparr>doc_content = None, doc_id = Some 1, doc_notes = Absent\<rparr>,
             writeError = None\<rparr>),
        (2, \<lparr>fetchReply = served \<lparr>doc_content = Some [], doc_id = Some 2, doc_notes = Absent\<rparr>,
             generateReply = \<lparr>chunks = [], failure = None\<rparr>,
             postReply = served \<lparr>doc_content = None, doc_id = Some 2, doc_notes = Absent\<rparr>,
             writeError = None\<rparr>),
        (3, \<lparr>fetchReply = served \<lparr>doc_content = Some ''text'', doc_id = Some 3,
                                  doc_notes = Absent\<rparr>,
             generateReply = \<lparr>chunks = [''Su''], failure = Some (Error ''model unavailable'')\<rparr>,
             postReply = served \<lparr>doc_content = None, doc_id = Some 3, doc_notes = Absent\<rparr>,
             writeError = None\<rparr>),
        (4, \<lparr>fetchReply = served \<lparr>doc_content = Some ''text'', doc_id = Some 4,
                                  doc_notes = Absent\<rparr>,
             generateReply = \<lparr>chunks = [''Sum'', ''mary''], failure = None\<rparr>,
             postReply = Resolves \<lparr>ok = False, statusText = ''Forbidden'', body = None\<rparr>,
             writeError = None\<rparr>),
        (5, \<lparr>fetchReply = served \<lparr>doc_content = Some ''text'', doc_id = Some 5,
                                  doc_notes = Absent\<rparr>,
             generateReply = \<lparr>chunks = [''Sum'', ''mary''], failure = None\<rparr>,
             postReply = served \<lparr>doc_content = None, doc_id = Some 5, doc_notes = Absent\<rparr>,
             writeError = Some (Error ''disk full'')\<rparr>),
        (6, \<lparr>fetchReply = served \<lparr>doc_content = Some ''text'', doc_id = Some 6,
                                  doc_notes = Absent\<rparr>,
             generateReply = \<lparr>chunks = [''Sum'', ''mary''], failure = None\<rparr>,
             postReply = served \<lparr>doc_content = None, doc_id = Some 6, doc_notes = Absent\<rparr>,
             writeError = None\<rparr>)]"]
  by (simp add: documentFailure_def fetchDocument_def postComment_def served_def falsy_def
        del: main_loop.simps)

end
